theory Spec2Isabelle
  imports Main "HOL-Library.Word"
begin

unbundle bit_operations_syntax

section \<open>Machine types and Windows result codes\<close>

text \<open>
  The wrapper is built for 64-bit Windows: \<open>size_t\<close> and \<open>uint64_t\<close> are both 64 bits
  wide. Counts of type \<open>size_t\<close> are modelled as \<open>nat\<close>; where the source multiplies a
  caller-supplied count, the wrap-around modulo \<open>2 ^ 64\<close> is written out.
  \<open>HRESULT\<close> is a signed 32-bit integer, kept as its bit pattern.
\<close>

type_synonym uint32_t = "32 word"
type_synonym uint8_t = "8 word"
type_synonym HRESULT = "32 word"

text \<open>
  The constants below are declared in the Windows SDK (winerror.h, stdint.h), not in the
  repository; they are given their SDK values.
\<close>

definition S_OK :: HRESULT where
  "S_OK = 0"

definition E_INVALIDARG :: HRESULT where
  "E_INVALIDARG = 0x80070057"

definition E_OUTOFMEMORY :: HRESULT where
  "E_OUTOFMEMORY = 0x8007000E"

definition E_UNEXPECTED :: HRESULT where
  "E_UNEXPECTED = 0x8000FFFF"

definition ERROR_ARITHMETIC_OVERFLOW :: "32 word" where
  "ERROR_ARITHMETIC_OVERFLOW = 534"

definition HRESULT_FROM_WIN32 :: "32 word \<Rightarrow> HRESULT" where
  "HRESULT_FROM_WIN32 x =
     (if sint x \<le> 0 then x else (x AND 0x0000FFFF) OR push_bit 16 7 OR 0x80000000)"

definition FAILED :: "HRESULT \<Rightarrow> bool" where
  "FAILED hr = (sint hr < 0)"

definition UINT32_MAX :: nat where
  "UINT32_MAX = 4294967295"

definition SIZE_MOD :: nat where
  "SIZE_MOD = 2 ^ 64"

section \<open>Memory: pointers, allocation, outcomes\<close>

text \<open>
  A call either returns a value or does not return normally: an invalid memory access,
  a failed \<open>assert\<close>, or an exception that nothing catches and that leaves the
  function. A pointer is \<open>None\<close> when null and otherwise carries the elements readable
  through it. Reading through a null pointer or beyond the readable elements is a
  \<open>Fault\<close>.
\<close>

datatype 'a outcome = Fault | Returns 'a

type_synonym 'a ptr = "'a list option"

definition rd :: "'a ptr \<Rightarrow> nat \<Rightarrow> 'a outcome" where
  "rd p i = (case p of None \<Rightarrow> Fault
             | Some buf \<Rightarrow> if i < length buf then Returns (buf ! i) else Fault)"

text \<open>
  \<open>memcpy dst src n\<close> copies \<open>n\<close> elements (the source passes \<open>sizeof(T) * n\<close> bytes)
  from \<open>src\<close> to the start of \<open>dst\<close>.
\<close>

definition memcpy :: "'a list \<Rightarrow> 'a ptr \<Rightarrow> nat \<Rightarrow> 'a list outcome" where
  "memcpy dst src n =
     (case src of None \<Rightarrow> Fault
      | Some buf \<Rightarrow> if n \<le> length buf \<and> n \<le> length dst
                    then Returns (take n buf @ drop n dst) else Fault)"

text \<open>
  \<open>new (std::nothrow) T[n]\<close> either fails (null) or yields \<open>n\<close> elements of
  indeterminate content. The environment decides which: an \<open>alloc\<close> is \<open>None\<close> when the
  allocation fails and otherwise gives the initial content of every slot.
\<close>

type_synonym 'a alloc = "(nat \<Rightarrow> 'a) option"

definition new_array :: "(nat \<Rightarrow> 'a) \<Rightarrow> nat \<Rightarrow> 'a list" where
  "new_array g n = map g [0..<n]"

definition new_nothrow :: "'a alloc \<Rightarrow> nat \<Rightarrow> 'a ptr" where
  "new_nothrow a n = (case a of None \<Rightarrow> None | Some g \<Rightarrow> Some (new_array g n))"

text \<open>
  Plain \<open>new T[n]\<close> throws \<open>std::bad_alloc\<close> when it fails. No function of this
  repository catches it, so the exception leaves the function that allocates.
\<close>

definition new_plain :: "'a alloc \<Rightarrow> nat \<Rightarrow> 'a list outcome" where
  "new_plain a n = (case a of None \<Rightarrow> Fault | Some g \<Rightarrow> Returns (new_array g n))"

text \<open>A member call \<open>p->f(...)\<close> through a pointer to one object: a fault when \<open>p\<close> is null.\<close>

definition call_through :: "'a option \<Rightarrow> ('a \<Rightarrow> 'b outcome) \<Rightarrow> 'b outcome" where
  "call_through p f = (case p of None \<Rightarrow> Fault | Some obj \<Rightarrow> f obj)"

section \<open>Mesh (Mesh.h, Mesh.cpp)\<close>

text \<open>
  Floating-point values are only stored and copied by this code, never computed with;
  their type is the parameter \<open>'f\<close>.
\<close>

datatype 'f XMFLOAT3 = XMFLOAT3 'f 'f 'f

datatype 'f XMFLOAT2 = XMFLOAT2 (uv_x: 'f) (uv_y: 'f)

record 'f Mesh =
  mnFaces :: nat
  mnVerts :: nat
  mIndices :: "uint32_t ptr"
  mAttributes :: "uint32_t ptr"
  mAdjacency :: "uint32_t ptr"
  mPositions :: "'f XMFLOAT3 ptr"
  mNormals :: "'f XMFLOAT3 ptr"

text \<open>The default constructor: \<open>Mesh() : mnFaces(0), mnVerts(0) {}\<close>.\<close>

definition Mesh_new :: "'f Mesh" where
  "Mesh_new = \<lparr>mnFaces = 0, mnVerts = 0, mIndices = None, mAttributes = None,
                mAdjacency = None, mPositions = None, mNormals = None\<rparr>"

text \<open>\<open>new (std::nothrow) Mesh\<close>: null when the allocation fails.\<close>

definition new_Mesh_nothrow :: "bool \<Rightarrow> 'f Mesh option" where
  "new_Mesh_nothrow ok = (if ok then Some Mesh_new else None)"

definition GetFaceCount :: "'f Mesh \<Rightarrow> nat" where
  "GetFaceCount m = mnFaces m"

definition GetVertexCount :: "'f Mesh \<Rightarrow> nat" where
  "GetVertexCount m = mnVerts m"

definition GetIndexBuffer :: "'f Mesh \<Rightarrow> uint32_t ptr" where
  "GetIndexBuffer m = mIndices m"

definition GetAttributeBuffer :: "'f Mesh \<Rightarrow> uint32_t ptr" where
  "GetAttributeBuffer m = mAttributes m"

definition GetAdjacencyBuffer :: "'f Mesh \<Rightarrow> uint32_t ptr" where
  "GetAdjacencyBuffer m = mAdjacency m"

definition GetPositionBuffer :: "'f Mesh \<Rightarrow> 'f XMFLOAT3 ptr" where
  "GetPositionBuffer m = mPositions m"

definition Clear :: "'f Mesh \<Rightarrow> 'f Mesh" where
  "Clear m = m\<lparr>mnFaces := 0, mnVerts := 0, mIndices := None, mAttributes := None,
               mAdjacency := None, mPositions := None, mNormals := None\<rparr>"

subsection \<open>SetIndexData\<close>

text \<open>
  \<open>uint64_t(nFaces) * 3\<close> and the \<open>size_t\<close> product \<open>nFaces * 3\<close> are the same 64-bit
  product \<open>n3\<close>. Past the range check \<open>n3 < UINT32_MAX\<close>, so the byte count
  \<open>sizeof(uint32_t) * nFaces * 3\<close> is \<open>4 * n3\<close> without a further wrap: \<open>memcpy\<close> copies
  \<open>n3\<close> elements.
\<close>

definition SetIndexData ::
  "uint32_t alloc \<Rightarrow> nat \<Rightarrow> uint32_t ptr \<Rightarrow> 'f Mesh \<Rightarrow> (HRESULT \<times> 'f Mesh) outcome" where
  "SetIndexData a nFaces indices m =
     (if nFaces = 0 \<or> indices = None then Returns (E_INVALIDARG, m)
      else let n3 = (nFaces * 3) mod SIZE_MOD in
        if n3 \<ge> UINT32_MAX then Returns (HRESULT_FROM_WIN32 ERROR_ARITHMETIC_OVERFLOW, m)
        else let m1 = m\<lparr>mnFaces := 0, mIndices := None, mAttributes := None\<rparr> in
          case new_nothrow a n3 of
            None \<Rightarrow> Returns (E_OUTOFMEMORY, m1)
          | Some ib \<Rightarrow>
              (case memcpy ib indices n3 of
                 Fault \<Rightarrow> Fault
               | Returns ib' \<Rightarrow> Returns (S_OK, m1\<lparr>mIndices := Some ib', mnFaces := nFaces\<rparr>)))"

subsection \<open>SetVertexData\<close>

text \<open>The loop \<open>for (i = 0; i < nVerts; i++) pos[i] = XMFLOAT3(xs[i], ys[i], zs[i])\<close>.\<close>

function load_positions ::
  "'f ptr \<Rightarrow> 'f ptr \<Rightarrow> 'f ptr \<Rightarrow> nat \<Rightarrow> nat \<Rightarrow> 'f XMFLOAT3 list \<Rightarrow> 'f XMFLOAT3 list outcome" where
  "load_positions xs ys zs i nVerts pos =
     (if i < nVerts then
        (case rd xs i of Fault \<Rightarrow> Fault | Returns x \<Rightarrow>
        (case rd ys i of Fault \<Rightarrow> Fault | Returns y \<Rightarrow>
        (case rd zs i of Fault \<Rightarrow> Fault | Returns z \<Rightarrow>
           load_positions xs ys zs (Suc i) nVerts (pos[i := XMFLOAT3 x y z]))))
      else Returns pos)"
  by pat_completeness auto
termination
  by (relation "measure (\<lambda>(xs, ys, zs, i, nVerts, pos). nVerts - i)") auto

declare load_positions.simps [simp del]

definition SetVertexData ::
  "'f XMFLOAT3 alloc \<Rightarrow> 'f ptr \<Rightarrow> 'f ptr \<Rightarrow> 'f ptr \<Rightarrow> nat \<Rightarrow> 'f Mesh
     \<Rightarrow> (HRESULT \<times> 'f Mesh) outcome" where
  "SetVertexData a xs ys zs nVerts m =
     (if nVerts = 0 then Returns (E_INVALIDARG, m)
      else let m1 = m\<lparr>mnVerts := 0, mPositions := None, mNormals := None\<rparr> in
        case new_nothrow a nVerts of
          None \<Rightarrow> Returns (E_OUTOFMEMORY, m1)
        | Some pos \<Rightarrow>
            (case load_positions xs ys zs 0 nVerts pos of
               Fault \<Rightarrow> Fault
             | Returns pos' \<Rightarrow>
                 Returns (S_OK, m1\<lparr>mPositions := Some pos', mNormals := None,
                                    mnVerts := nVerts\<rparr>)))"

subsection \<open>Clean\<close>

text \<open>
  \<open>DirectX::Clean\<close> belongs to the external DirectXMesh library and is a parameter of
  the model. Per its interface (directxmesh.h) the index and adjacency buffers are
  in/out, the attribute buffer is input only, and \<open>dupVerts\<close> is an output: the
  parameter maps (indices, nFaces, nVerts, adjacency, attributes, breakBowties) to
  (result, indices afterwards, adjacency afterwards, dupVerts).
\<close>

type_synonym DirectX_Clean =
  "uint32_t list \<Rightarrow> nat \<Rightarrow> nat \<Rightarrow> uint32_t ptr \<Rightarrow> uint32_t ptr \<Rightarrow> bool
     \<Rightarrow> HRESULT \<times> uint32_t list \<times> uint32_t ptr \<times> uint32_t list"

text \<open>
  The loop over \<open>dups\<close>, with \<open>j\<close> running from \<open>mnVerts\<close>. The \<open>assert\<close> is taken as
  compiled in; \<open>m\<close> is the mesh whose position and normal buffers are read.
\<close>

fun copy_dups ::
  "uint32_t list \<Rightarrow> nat \<Rightarrow> nat \<Rightarrow> 'f Mesh \<Rightarrow> 'f XMFLOAT3 list \<Rightarrow> 'f XMFLOAT3 ptr
     \<Rightarrow> ('f XMFLOAT3 list \<times> 'f XMFLOAT3 ptr) outcome" where
  "copy_dups [] j nNewVerts m pos norms = Returns (pos, norms)"
| "copy_dups (it # rest) j nNewVerts m pos norms =
     (if j < nNewVerts then
        if \<not> unat it < mnVerts m then Fault
        else
          (case rd (mPositions m) (unat it) of Fault \<Rightarrow> Fault | Returns p \<Rightarrow>
            (case norms of
               None \<Rightarrow> copy_dups rest (Suc j) nNewVerts m (pos[j := p]) None
             | Some nb \<Rightarrow>
                 (case rd (mNormals m) (unat it) of Fault \<Rightarrow> Fault | Returns nv \<Rightarrow>
                    copy_dups rest (Suc j) nNewVerts m (pos[j := p]) (Some (nb[j := nv])))))
      else Returns (pos, norms))"

text \<open>The end of \<open>Clean\<close>: the loop, then the buffers and the count are committed.\<close>

definition Clean_commit ::
  "uint32_t list \<Rightarrow> nat \<Rightarrow> 'f Mesh \<Rightarrow> 'f Mesh \<Rightarrow> 'f XMFLOAT3 list \<Rightarrow> 'f XMFLOAT3 ptr
     \<Rightarrow> (HRESULT \<times> 'f Mesh) outcome" where
  "Clean_commit dups nNewVerts m m1 pos1 norms1 =
     (case copy_dups dups (mnVerts m) nNewVerts m pos1 norms1 of
        Fault \<Rightarrow> Fault
      | Returns (pos, norms) \<Rightarrow>
          Returns (S_OK, m1\<lparr>mPositions := Some pos, mNormals := norms,
                             mnVerts := nNewVerts\<rparr>))"

text \<open>
  \<open>m1\<close> is the mesh after the external cleaner has run on its index and adjacency
  buffers; every later \<open>return\<close> leaves those as the cleaner wrote them.
\<close>

definition Clean ::
  "DirectX_Clean \<Rightarrow> 'f XMFLOAT3 alloc \<Rightarrow> 'f XMFLOAT3 alloc \<Rightarrow> bool \<Rightarrow> 'f Mesh
     \<Rightarrow> (HRESULT \<times> 'f Mesh) outcome" where
  "Clean dxClean a_pos a_norms breakBowties m =
     (if mnFaces m = 0 \<or> mIndices m = None \<or> mnVerts m = 0 \<or> mPositions m = None
      then Returns (E_UNEXPECTED, m)
      else
        (case dxClean (the (mIndices m)) (mnFaces m) (mnVerts m) (mAdjacency m)
                (mAttributes m) breakBowties of
           (hr, ib, adj, dups) \<Rightarrow>
             let m1 = m\<lparr>mIndices := Some ib, mAdjacency := adj\<rparr> in
             if FAILED hr then Returns (hr, m1)
             else if dups = [] then Returns (S_OK, m1)
             else let nNewVerts = mnVerts m + length dups in
               (case new_nothrow a_pos nNewVerts of
                  None \<Rightarrow> Returns (E_OUTOFMEMORY, m1)
                | Some pos0 \<Rightarrow>
                    (case memcpy pos0 (mPositions m) (mnVerts m) of
                       Fault \<Rightarrow> Fault
                     | Returns pos1 \<Rightarrow>
                         if mNormals m \<noteq> None then
                           (case new_nothrow a_norms nNewVerts of
                              None \<Rightarrow> Returns (E_OUTOFMEMORY, m1)
                            | Some norms0 \<Rightarrow>
                                (case memcpy norms0 (mNormals m) (mnVerts m) of
                                   Fault \<Rightarrow> Fault
                                 | Returns norms1 \<Rightarrow>
                                     Clean_commit dups nNewVerts m m1 pos1 (Some norms1)))
                         else Clean_commit dups nNewVerts m m1 pos1 None))))"

subsection \<open>GenerateAdjacency and ComputeNormals\<close>

text \<open>
  \<open>DirectX::GenerateAdjacencyAndPointReps\<close> and \<open>DirectX::ComputeNormals\<close> are external
  (DirectXMesh) and are parameters. Each receives the freshly allocated output buffer
  and returns it as it has left it; the point-representative output is passed as null
  and omitted. Console output (\<open>wprintf\<close>) is not modelled.
\<close>

type_synonym 'f DirectX_GenerateAdjacency =
  "uint32_t list \<Rightarrow> nat \<Rightarrow> 'f XMFLOAT3 list \<Rightarrow> nat \<Rightarrow> 'f \<Rightarrow> uint32_t list
     \<Rightarrow> HRESULT \<times> uint32_t list"

type_synonym 'f DirectX_ComputeNormals =
  "uint32_t list \<Rightarrow> nat \<Rightarrow> 'f XMFLOAT3 list \<Rightarrow> nat \<Rightarrow> 32 word \<Rightarrow> 'f XMFLOAT3 list
     \<Rightarrow> HRESULT \<times> 'f XMFLOAT3 list"

definition GenerateAdjacency ::
  "'f DirectX_GenerateAdjacency \<Rightarrow> uint32_t alloc \<Rightarrow> 'f \<Rightarrow> 'f Mesh
     \<Rightarrow> (HRESULT \<times> 'f Mesh) outcome" where
  "GenerateAdjacency dxGenAdj a epsilon m =
     (if mnFaces m = 0 \<or> mIndices m = None \<or> mnVerts m = 0 \<or> mPositions m = None
      then Returns (E_UNEXPECTED, m)
      else let n3 = (mnFaces m * 3) mod SIZE_MOD in
        if n3 \<ge> UINT32_MAX then Returns (HRESULT_FROM_WIN32 ERROR_ARITHMETIC_OVERFLOW, m)
        else
          (case new_nothrow a n3 of
             None \<Rightarrow> Returns (E_OUTOFMEMORY, m\<lparr>mAdjacency := None\<rparr>)
           | Some adj0 \<Rightarrow>
               (case dxGenAdj (the (mIndices m)) (mnFaces m) (the (mPositions m)) (mnVerts m)
                       epsilon adj0 of
                  (hr, adj) \<Rightarrow> Returns (hr, m\<lparr>mAdjacency := Some adj\<rparr>))))"

definition ComputeNormals ::
  "'f DirectX_ComputeNormals \<Rightarrow> 'f XMFLOAT3 alloc \<Rightarrow> 32 word \<Rightarrow> 'f Mesh
     \<Rightarrow> (HRESULT \<times> 'f Mesh) outcome" where
  "ComputeNormals dxNormals a flags m =
     (if mnFaces m = 0 \<or> mIndices m = None \<or> mnVerts m = 0 \<or> mPositions m = None
      then Returns (E_UNEXPECTED, m)
      else
        (case new_nothrow a (mnVerts m) of
           None \<Rightarrow> Returns (E_OUTOFMEMORY, m\<lparr>mNormals := None\<rparr>)
         | Some nb0 \<Rightarrow>
             (case dxNormals (the (mIndices m)) (mnFaces m) (the (mPositions m)) (mnVerts m)
                     flags nb0 of
                (hr, nb) \<Rightarrow> Returns (hr, m\<lparr>mNormals := Some nb\<rparr>))))"

subsection \<open>Move assignment and move construction\<close>




section \<open>The pipeline entry point (UVAtlasClass.h, UVAtlasClass.cpp)\<close>

datatype 'f UVAtlasVertex = UVAtlasVertex (vtx_pos: "'f XMFLOAT3") (vtx_uv: "'f XMFLOAT2")

text \<open>The members of \<open>struct UVAtlasData\<close>; the pointer members carry the prefix \<open>p_\<close>.\<close>

record 'f UVAtlasData =
  numVertices :: uint32_t
  p_us :: "'f ptr"
  p_vs :: "'f ptr"
  p_xs :: "'f ptr"
  p_ys :: "'f ptr"
  p_zs :: "'f ptr"
  numFaces :: uint32_t
  p_indices :: "uint32_t ptr"
  p_vertexRemap :: "uint32_t ptr"

text \<open>
  \<open>UVAtlasCreate\<close> belongs to the external UVAtlas library and is a parameter. It maps
  (positions, nVerts, indices, nFaces, maxCharts, maxStretch, width, height, gutter,
  adjacency, options) to (result, vb, ib, vertexRemapArray); the remaining arguments of
  the call are constants, and the stretch and chart outputs are not used.
\<close>

type_synonym 'f UVAtlasCreate_fn =
  "'f XMFLOAT3 ptr \<Rightarrow> nat \<Rightarrow> uint32_t ptr \<Rightarrow> nat \<Rightarrow> int \<Rightarrow> 'f \<Rightarrow> int \<Rightarrow> int \<Rightarrow> 'f
     \<Rightarrow> uint32_t ptr \<Rightarrow> 32 word
     \<Rightarrow> HRESULT \<times> 'f UVAtlasVertex list \<times> uint8_t list \<times> uint32_t list"

text \<open>
  What the entry point takes from its environment, in the order it uses it: whether the
  \<open>Mesh\<close> object can be allocated (\<open>new (std::nothrow)\<close>, its result not checked); the
  outcome of the three checked allocations inside the mesh operations; the two external
  library functions; the outcome of the five plain \<open>new\<close> that build the result (the
  \<open>UVAtlasData\<close> object, \<open>us\<close>, \<open>vs\<close>, \<open>indices\<close>, \<open>vertexRemap\<close>); and the
  indeterminate value of the result's pointer members that are never assigned.
\<close>

record 'f env =
  alloc_Mesh :: bool
  alloc_ib :: "uint32_t alloc"
  alloc_pos :: "'f XMFLOAT3 alloc"
  alloc_adj :: "uint32_t alloc"
  dxGenerateAdjacency :: "'f DirectX_GenerateAdjacency"
  dxUVAtlasCreate :: "'f UVAtlasCreate_fn"
  alloc_result :: bool
  alloc_us :: "'f alloc"
  alloc_vs :: "'f alloc"
  alloc_indices :: "uint32_t alloc"
  alloc_vertexRemap :: "uint32_t alloc"
  junk_ptr :: "'f ptr"

text \<open>The loop \<open>for (i = i0; i < n; i++) buf[i] = f(i)\<close>.\<close>

function fill :: "nat \<Rightarrow> nat \<Rightarrow> (nat \<Rightarrow> 'a) \<Rightarrow> 'a list \<Rightarrow> 'a list" where
  "fill i n f buf = (if i < n then fill (Suc i) n f (buf[i := f i]) else buf)"
  by pat_completeness auto
termination
  by (relation "measure (\<lambda>(i, n, f, buf). n - i)") auto

declare fill.simps [simp del]

text \<open>
  \<open>realIndices[i]\<close>: the byte vector \<open>ib\<close> reinterpreted as 32-bit words, little-endian
  as on every Windows target.
\<close>

definition realIndices :: "uint8_t list \<Rightarrow> nat \<Rightarrow> uint32_t" where
  "realIndices ib i =
     ucast (ib ! (4 * i)) OR push_bit 8 (ucast (ib ! (4 * i + 1)))
       OR push_bit 16 (ucast (ib ! (4 * i + 2))) OR push_bit 24 (ucast (ib ! (4 * i + 3)))"

text \<open>
  The construction of the result after \<open>UVAtlasCreate\<close> has succeeded
  (UVAtlasClass.cpp:90-110), in source order. Each plain \<open>new\<close> can throw; the exception
  leaves \<open>UVAtlas\<close> with \<open>returnCode\<close> still holding the 1 stored on entry and nothing
  returned. The first loop of the source writes \<open>us[i]\<close> and \<open>vs[i]\<close> in one iteration;
  the two arrays are distinct allocations, so it is given as one \<open>fill\<close> for each. The
  members \<open>xs\<close>, \<open>ys\<close>, \<open>zs\<close> of the result are never assigned. \<open>&ib[0]\<close> is used
  as an address only: every read \<open>realIndices[i]\<close> has \<open>i < indexCount\<close> and stays inside
  \<open>ib\<close>.
\<close>

definition build_result ::
  "'f env \<Rightarrow> 'f UVAtlasVertex list \<Rightarrow> uint8_t list \<Rightarrow> uint32_t list
     \<Rightarrow> 'f UVAtlasData outcome" where
  "build_result env vb ib vertexRemapArray =
     (if \<not> alloc_result env then Fault
      else
        (case new_plain (alloc_us env) (length vb) of
           Fault \<Rightarrow> Fault
         | Returns us0 \<Rightarrow>
        (case new_plain (alloc_vs env) (length vb) of
           Fault \<Rightarrow> Fault
         | Returns vs0 \<Rightarrow>
             let indexCount = length ib div 4 in
        (case new_plain (alloc_indices env) indexCount of
           Fault \<Rightarrow> Fault
         | Returns indices0 \<Rightarrow>
             let us1 = fill 0 (length vb) (\<lambda>i. uv_x (vtx_uv (vb ! i))) us0;
                 vs1 = fill 0 (length vb) (\<lambda>i. uv_y (vtx_uv (vb ! i))) vs0;
                 indices1 = fill 0 indexCount (realIndices ib) indices0
             in
        (case new_plain (alloc_vertexRemap env) (length vertexRemapArray) of
           Fault \<Rightarrow> Fault
         | Returns remap0 \<Rightarrow>
             let remap1 = fill 0 (length vertexRemapArray) (\<lambda>i. vertexRemapArray ! i) remap0
             in Returns \<lparr>numVertices = of_nat (length vb), p_us = Some us1, p_vs = Some vs1,
                         p_xs = junk_ptr env, p_ys = junk_ptr env, p_zs = junk_ptr env,
                         numFaces = of_nat (indexCount div 3), p_indices = Some indices1,
                         p_vertexRemap = Some remap1\<rparr>)))))"

text \<open>
  \<open>UVAtlas\<close> returns the result pointer (\<open>None\<close> for \<open>nullptr\<close>) together with the value
  left in \<open>returnCode\<close>. The first member call goes through \<open>inMesh\<close> as allocated; a
  call that has come back proves the pointer non-null for the later ones.
\<close>

definition UVAtlas ::
  "'f env \<Rightarrow> 'f UVAtlasData \<Rightarrow> int \<Rightarrow> 'f \<Rightarrow> 'f \<Rightarrow> int \<Rightarrow> int \<Rightarrow> 32 word \<Rightarrow> 'f
     \<Rightarrow> ('f UVAtlasData option \<times> int) outcome" where
  "UVAtlas env data maxCharts maxStretch gutter width height uvOptions adjacencyEpsilon =
     (case call_through (new_Mesh_nothrow (alloc_Mesh env))
             (SetIndexData (alloc_ib env) (unat (numFaces data)) (p_indices data)) of
        Fault \<Rightarrow> Fault
      | Returns (hr1, inMesh1) \<Rightarrow>
          if FAILED hr1 then Returns (None, 2)
          else
            (case SetVertexData (alloc_pos env) (p_xs data) (p_ys data) (p_zs data)
                    (unat (numVertices data)) inMesh1 of
               Fault \<Rightarrow> Fault
             | Returns (hr2, inMesh2) \<Rightarrow>
                 if FAILED hr2 then Returns (None, 3)
                 else
                   (case GenerateAdjacency (dxGenerateAdjacency env) (alloc_adj env)
                           adjacencyEpsilon inMesh2 of
                      Fault \<Rightarrow> Fault
                    | Returns (hr3, inMesh3) \<Rightarrow>
                        if FAILED hr3 then Returns (None, 4)
                        else
                          (case dxUVAtlasCreate env (GetPositionBuffer inMesh3)
                                  (GetVertexCount inMesh3) (GetIndexBuffer inMesh3)
                                  (unat (numFaces data)) maxCharts maxStretch width height
                                  gutter (GetAdjacencyBuffer inMesh3) uvOptions of
                             (hr4, vb, ib, vertexRemapArray) \<Rightarrow>
                               if FAILED hr4 then Returns (None, 5)
                               else
                                 (case build_result env vb ib vertexRemapArray of
                                    Fault \<Rightarrow> Fault
                                  | Returns result \<Rightarrow> Returns (Some result, 0))))))"

text \<open>The four stage calls of \<open>UVAtlas\<close>, named for use in statements.\<close>

abbreviation index_stage :: "'f env \<Rightarrow> 'f UVAtlasData \<Rightarrow> (HRESULT \<times> 'f Mesh) outcome" where
  "index_stage env data \<equiv>
     call_through (new_Mesh_nothrow (alloc_Mesh env))
       (SetIndexData (alloc_ib env) (unat (numFaces data)) (p_indices data))"

abbreviation vertex_stage ::
  "'f env \<Rightarrow> 'f UVAtlasData \<Rightarrow> 'f Mesh \<Rightarrow> (HRESULT \<times> 'f Mesh) outcome" where
  "vertex_stage env data m1 \<equiv>
     SetVertexData (alloc_pos env) (p_xs data) (p_ys data) (p_zs data)
       (unat (numVertices data)) m1"

abbreviation adjacency_stage :: "'f env \<Rightarrow> 'f \<Rightarrow> 'f Mesh \<Rightarrow> (HRESULT \<times> 'f Mesh) outcome" where
  "adjacency_stage env epsilon m2 \<equiv>
     GenerateAdjacency (dxGenerateAdjacency env) (alloc_adj env) epsilon m2"

abbreviation atlas_stage ::
  "'f env \<Rightarrow> 'f UVAtlasData \<Rightarrow> int \<Rightarrow> 'f \<Rightarrow> 'f \<Rightarrow> int \<Rightarrow> int \<Rightarrow> 32 word \<Rightarrow> 'f Mesh
     \<Rightarrow> HRESULT \<times> 'f UVAtlasVertex list \<times> uint8_t list \<times> uint32_t list" where
  "atlas_stage env data maxCharts maxStretch gutter width height uvOptions m3 \<equiv>
     dxUVAtlasCreate env (GetPositionBuffer m3) (GetVertexCount m3) (GetIndexBuffer m3)
       (unat (numFaces data)) maxCharts maxStretch width height gutter
       (GetAdjacencyBuffer m3) uvOptions"

section \<open>Auxiliary notions and test data\<close>

text \<open>\<open>readable p n\<close>: the pointer is not null and at least \<open>n\<close> elements can be read.\<close>

definition readable :: "'a ptr \<Rightarrow> nat \<Rightarrow> bool" where
  "readable p n = (case p of None \<Rightarrow> False | Some buf \<Rightarrow> n \<le> length buf)"

text \<open>An empty mesh over integer-valued coordinates, and an index buffer of \<open>2^32 - 1\<close> entries.\<close>

definition mesh0 :: "int Mesh" where
  "mesh0 = Mesh_new"

definition buffer_4G :: "uint32_t list" where
  "buffer_4G = replicate 4294967295 0"

text \<open>
  A bowtie: two triangles that share vertex 0 and nothing else, with normals, and with
  the adjacency of a mesh without shared edges.
\<close>

definition bowtie :: "int Mesh" where
  "bowtie = \<lparr>mnFaces = 2, mnVerts = 5, mIndices = Some [0, 1, 2, 0, 3, 4], mAttributes = None,
             mAdjacency = Some [0xFFFFFFFF, 0xFFFFFFFF, 0xFFFFFFFF,
                                0xFFFFFFFF, 0xFFFFFFFF, 0xFFFFFFFF],
             mPositions = Some [XMFLOAT3 0 0 0, XMFLOAT3 1 0 0, XMFLOAT3 0 1 0,
                                XMFLOAT3 (- 1) 0 0, XMFLOAT3 0 (- 1) 0],
             mNormals = Some [XMFLOAT3 0 0 1, XMFLOAT3 0 0 2, XMFLOAT3 0 0 3,
                              XMFLOAT3 0 0 4, XMFLOAT3 0 0 5]\<rparr>"

text \<open>
  Modelled from the spec: \<open>DirectX::Clean\<close> (DirectXMesh, not under src/) on the bowtie.
  Section 4.3: the offending vertex is duplicated into a new slot appended at the end
  of the vertex sequence and the index entries of the affected face are rewritten to
  reference it; with nothing to duplicate the buffers are left untouched.
\<close>

definition bowtie_Clean :: DirectX_Clean where
  "bowtie_Clean ib nFaces nVerts adj attrs breakBowties =
     (if breakBowties \<and> ib = [0, 1, 2, 0, 3, 4] \<and> nVerts = 5
      then (S_OK, [0, 1, 2, 5, 3, 4], adj, [0])
      else (S_OK, ib, adj, []))"



text \<open>A single triangle, not yet with adjacency.\<close>

definition triangle :: "int Mesh" where
  "triangle = \<lparr>mnFaces = 1, mnVerts = 3, mIndices = Some [0, 1, 2], mAttributes = None,
               mAdjacency = None,
               mPositions = Some [XMFLOAT3 0 0 0, XMFLOAT3 1 0 0, XMFLOAT3 0 1 0],
               mNormals = None\<rparr>"

text \<open>
  Modelled from the spec: \<open>DirectX::GenerateAdjacencyAndPointReps\<close> (DirectXMesh, not
  under src/) on a mesh without shared edges. Section 8: for an open mesh such as a
  single triangle every adjacency entry is the "no neighbor" sentinel.
\<close>

definition no_neighbour_adjacency :: "int DirectX_GenerateAdjacency" where
  "no_neighbour_adjacency ib nFaces pos nVerts epsilon adj =
     (S_OK, replicate (length adj) 0xFFFFFFFF)"

text \<open>Initial contents of freshly allocated arrays in the examples.\<close>

definition zero3 :: "nat \<Rightarrow> int XMFLOAT3" where
  "zero3 i = XMFLOAT3 0 0 0"

definition junk32 :: "nat \<Rightarrow> uint32_t" where
  "junk32 i = 0"

text \<open>
  Modelled from the spec: \<open>UVAtlasCreate\<close> (UVAtlas library, not under src/) on a single
  triangle. Section 4.6: one chart; the output carries per-vertex UVs, a 32-bit index
  buffer (here as its twelve bytes) and \<open>vertexRemap[outputIndex] = inputIndex\<close>.
\<close>

definition flat_atlas :: "int UVAtlasCreate_fn" where
  "flat_atlas pos nVerts ib nFaces maxCharts maxStretch width height gutter adj opts =
     (S_OK,
      [UVAtlasVertex (XMFLOAT3 0 0 0) (XMFLOAT2 0 0), UVAtlasVertex (XMFLOAT3 1 0 0) (XMFLOAT2 1 0),
       UVAtlasVertex (XMFLOAT3 0 1 0) (XMFLOAT2 0 1)],
      [0, 0, 0, 0, 1, 0, 0, 0, 2, 0, 0, 0],
      [0, 1, 2])"

text \<open>
  Modelled from the spec: \<open>UVAtlasCreate\<close> when no feasible packing exists (section 4.6):
  a failing result code and no output.
\<close>

definition infeasible_atlas :: "int UVAtlasCreate_fn" where
  "infeasible_atlas pos nVerts ib nFaces maxCharts maxStretch width height gutter adj opts =
     (E_UNEXPECTED, [], [], [])"

text \<open>The caller's data for the single triangle, its environment, and the expected atlas.\<close>

definition triangle_data :: "int UVAtlasData" where
  "triangle_data = \<lparr>numVertices = 3, p_us = None, p_vs = None, p_xs = Some [0, 1, 0],
                    p_ys = Some [0, 0, 1], p_zs = Some [0, 0, 0], numFaces = 1,
                    p_indices = Some [0, 1, 2], p_vertexRemap = None\<rparr>"

definition triangle_env :: "int env" where
  "triangle_env = \<lparr>alloc_Mesh = True, alloc_ib = Some junk32, alloc_pos = Some zero3,
                   alloc_adj = Some junk32, dxGenerateAdjacency = no_neighbour_adjacency,
                   dxUVAtlasCreate = flat_atlas, alloc_result = True,
                   alloc_us = Some (\<lambda>i. 0), alloc_vs = Some (\<lambda>i. 0),
                   alloc_indices = Some junk32, alloc_vertexRemap = Some junk32,
                   junk_ptr = None\<rparr>"

definition triangle_atlas :: "int UVAtlasData" where
  "triangle_atlas = \<lparr>numVertices = 3, p_us = Some [0, 1, 0], p_vs = Some [0, 0, 1], p_xs = None,
                     p_ys = None, p_zs = None, numFaces = 1, p_indices = Some [0, 1, 2],
                     p_vertexRemap = Some [0, 1, 2]\<rparr>"

text \<open>The mesh of the pipeline after each of its three mesh stages.\<close>

definition triangle_mesh1 :: "int Mesh" where
  "triangle_mesh1 = Mesh_new\<lparr>mnFaces := 1, mIndices := Some [0, 1, 2]\<rparr>"

definition triangle_mesh2 :: "int Mesh" where
  "triangle_mesh2 = triangle_mesh1\<lparr>mnVerts := 3,
      mPositions := Some [XMFLOAT3 0 0 0, XMFLOAT3 1 0 0, XMFLOAT3 0 1 0]\<rparr>"

definition triangle_mesh3 :: "int Mesh" where
  "triangle_mesh3 = triangle_mesh2\<lparr>mAdjacency := Some [0xFFFFFFFF, 0xFFFFFFFF, 0xFFFFFFFF]\<rparr>"


section \<open>Result codes\<close>

lemma overflow_code: "HRESULT_FROM_WIN32 ERROR_ARITHMETIC_OVERFLOW = 0x80070216"
  by (simp add: HRESULT_FROM_WIN32_def ERROR_ARITHMETIC_OVERFLOW_def)

lemma FAILED_codes:
  "\<not> FAILED S_OK" "FAILED E_INVALIDARG" "FAILED E_OUTOFMEMORY" "FAILED E_UNEXPECTED"
  "FAILED (HRESULT_FROM_WIN32 ERROR_ARITHMETIC_OVERFLOW)"
  by (simp_all add: FAILED_def S_OK_def E_INVALIDARG_def E_OUTOFMEMORY_def E_UNEXPECTED_def
        overflow_code)

lemma codes_distinct:
  "E_INVALIDARG \<noteq> E_OUTOFMEMORY"
  "E_INVALIDARG \<noteq> HRESULT_FROM_WIN32 ERROR_ARITHMETIC_OVERFLOW"
  "E_INVALIDARG \<noteq> S_OK"
  "E_OUTOFMEMORY \<noteq> S_OK"
  "E_OUTOFMEMORY \<noteq> HRESULT_FROM_WIN32 ERROR_ARITHMETIC_OVERFLOW"
  "HRESULT_FROM_WIN32 ERROR_ARITHMETIC_OVERFLOW \<noteq> S_OK"
  "E_UNEXPECTED \<noteq> S_OK"
  "E_UNEXPECTED \<noteq> E_INVALIDARG"
  "E_UNEXPECTED \<noteq> E_OUTOFMEMORY"
  by (simp_all add: S_OK_def E_INVALIDARG_def E_OUTOFMEMORY_def E_UNEXPECTED_def overflow_code)

section \<open>Buffers and loops\<close>

lemma length_new_array [simp]: "length (new_array g n) = n"
  by (simp add: new_array_def)

lemma rd_Returns_iff: "(\<exists>v. rd p i = Returns v) \<longleftrightarrow> readable p (Suc i)"
  by (auto simp: rd_def readable_def split: option.splits)

lemma fill_eq:
  "i \<le> n \<Longrightarrow> n \<le> length buf \<Longrightarrow> fill i n f buf = take i buf @ map f [i..<n] @ drop n buf"
proof (induction i n f buf rule: fill.induct)
  case (1 i n f buf)
  show ?case
  proof (cases "i < n")
    case True
    then have "fill i n f buf = fill (Suc i) n f (buf[i := f i])"
      by (subst fill.simps) simp
    also have "\<dots> = take (Suc i) (buf[i := f i]) @ map f [Suc i..<n] @ drop n (buf[i := f i])"
      using "1.IH" "1.prems" True by simp
    also have "\<dots> = take i buf @ map f [i..<n] @ drop n buf"
      using True "1.prems"(2) by (simp add: take_Suc_conv_app_nth upt_conv_Cons)
    finally show ?thesis .
  next
    case False
    with "1.prems" have "i = n" by simp
    then show ?thesis using "1.prems"(2) by (subst fill.simps) simp
  qed
qed

lemma fill_new: "fill 0 n f (new_array g n) = map f [0..<n]"
  by (simp add: fill_eq)

text \<open>The position loop succeeds exactly when all three arrays can be read up to \<open>n\<close>.\<close>

lemma load_positions_readable:
  assumes "xs = Some bx" "ys = Some by" "zs = Some bz"
    and "n \<le> length bx" "n \<le> length by" "n \<le> length bz"
    and "i \<le> n" "n \<le> length pos"
  shows "load_positions xs ys zs i n pos =
           Returns (take i pos @ map (\<lambda>k. XMFLOAT3 (bx ! k) (by ! k) (bz ! k)) [i..<n]
                      @ drop n pos)"
  using assms
proof (induction xs ys zs i n pos rule: load_positions.induct)
  case (1 xs ys zs i n pos)
  show ?case
  proof (cases "i < n")
    case True
    let ?v = "XMFLOAT3 (bx ! i) (by ! i) (bz ! i)"
    from True "1.prems" have r: "rd xs i = Returns (bx ! i)" "rd ys i = Returns (by ! i)"
      "rd zs i = Returns (bz ! i)"
      by (simp_all add: rd_def)
    then have "load_positions xs ys zs i n pos
                 = load_positions xs ys zs (Suc i) n (pos[i := ?v])"
      using True by (subst load_positions.simps) simp
    also have "\<dots> = Returns (take (Suc i) (pos[i := ?v])
                  @ map (\<lambda>k. XMFLOAT3 (bx ! k) (by ! k) (bz ! k)) [Suc i..<n]
                  @ drop n (pos[i := ?v]))"
      using "1.IH" "1.prems" True r by simp
    also have "\<dots> = Returns (take i pos
                  @ map (\<lambda>k. XMFLOAT3 (bx ! k) (by ! k) (bz ! k)) [i..<n] @ drop n pos)"
      using True "1.prems"(8) by (simp add: take_Suc_conv_app_nth upt_conv_Cons)
    finally show ?thesis .
  next
    case False
    with "1.prems" have "i = n" by simp
    then show ?thesis using "1.prems"(8) by (subst load_positions.simps) simp
  qed
qed

lemma load_positions_unreadable:
  assumes "i < n" "\<not> (readable xs n \<and> readable ys n \<and> readable zs n)"
  shows "load_positions xs ys zs i n pos = Fault"
  using assms
proof (induction xs ys zs i n pos rule: load_positions.induct)
  case (1 xs ys zs i n pos)
  show ?case
  proof (cases "readable xs (Suc i) \<and> readable ys (Suc i) \<and> readable zs (Suc i)")
    case False
    then have "rd xs i = Fault \<or> rd ys i = Fault \<or> rd zs i = Fault"
      using rd_Returns_iff by (metis outcome.exhaust)
    then show ?thesis
      using "1.prems"(1) by (subst load_positions.simps) (auto split: outcome.splits)
  next
    case True
    then obtain x y z where r: "rd xs i = Returns x" "rd ys i = Returns y" "rd zs i = Returns z"
      using rd_Returns_iff by metis
    from True "1.prems"(2) have "Suc i \<noteq> n" by auto
    with "1.prems"(1) have lt: "Suc i < n" by simp
    have "load_positions xs ys zs i n pos
            = load_positions xs ys zs (Suc i) n (pos[i := XMFLOAT3 x y z])"
      using "1.prems"(1) r by (subst load_positions.simps) simp
    also have "\<dots> = Fault"
      using "1.IH"[OF "1.prems"(1) r lt "1.prems"(2)] .
    finally show ?thesis .
  qed
qed

lemma load_positions_new:
  "0 < n \<Longrightarrow> load_positions xs ys zs 0 n (new_array g n) =
     (if readable xs n \<and> readable ys n \<and> readable zs n
      then Returns (map (\<lambda>k. XMFLOAT3 (the xs ! k) (the ys ! k) (the zs ! k)) [0..<n])
      else Fault)"
  by (auto simp: load_positions_unreadable load_positions_readable readable_def
           split: option.splits)

section \<open>The two ingestion operations, case by case\<close>

lemma SetVertexData_cases:
  "SetVertexData a xs ys zs nVerts m =
     (if nVerts = 0 then Returns (E_INVALIDARG, m)
      else if a = None
        then Returns (E_OUTOFMEMORY, m\<lparr>mnVerts := 0, mPositions := None, mNormals := None\<rparr>)
      else if readable xs nVerts \<and> readable ys nVerts \<and> readable zs nVerts
        then Returns (S_OK, m\<lparr>mnVerts := nVerts,
               mPositions := Some (map (\<lambda>k. XMFLOAT3 (the xs ! k) (the ys ! k) (the zs ! k))
                                     [0..<nVerts]),
               mNormals := None\<rparr>)
      else Fault)"
  by (auto simp: SetVertexData_def new_nothrow_def load_positions_new split: option.splits)

lemma SetIndexData_cases:
  "SetIndexData a nFaces indices m =
     (if nFaces = 0 \<or> indices = None then Returns (E_INVALIDARG, m)
      else if UINT32_MAX \<le> (nFaces * 3) mod SIZE_MOD
        then Returns (HRESULT_FROM_WIN32 ERROR_ARITHMETIC_OVERFLOW, m)
      else if a = None
        then Returns (E_OUTOFMEMORY, m\<lparr>mnFaces := 0, mIndices := None, mAttributes := None\<rparr>)
      else if readable indices ((nFaces * 3) mod SIZE_MOD)
        then Returns (S_OK, m\<lparr>mnFaces := nFaces,
               mIndices := Some (take ((nFaces * 3) mod SIZE_MOD) (the indices)),
               mAttributes := None\<rparr>)
      else Fault)"
  by (auto simp: SetIndexData_def Let_def new_nothrow_def memcpy_def readable_def
           split: option.splits)

lemma wf_product: "3 * nFaces < 2 ^ 64 \<Longrightarrow> (nFaces * 3) mod SIZE_MOD = 3 * nFaces"
  by (simp add: SIZE_MOD_def mult.commute)

section \<open>SetIndexData\<close>

text \<open>
  C5 (amended). Let the caller's arguments be well formed: three times \<open>faceCount\<close> fits
  the 64-bit \<open>size_t\<close>, and a non-null \<open>indices\<close> holds at least \<open>3 * faceCount\<close>
  entries. Then \<open>SetIndexData\<close> fails with \<open>E_INVALIDARG\<close> exactly when \<open>faceCount\<close> is
  zero or \<open>indices\<close> is null; when both are valid it fails with the arithmetic-overflow
  code exactly when \<open>3 * faceCount \<ge> UINT32_MAX\<close> (the bound itself included); below
  that bound it fails with \<open>E_OUTOFMEMORY\<close> exactly when the index allocation fails,
  leaving \<open>faceCount\<close> zero and the index and attribute buffers released; otherwise it
  succeeds, the mesh owns a copy of the \<open>3 * faceCount\<close> indices, and \<open>GetFaceCount()\<close>
  is \<open>faceCount\<close>.
\<close>

theorem SetIndexData_contract:
  assumes fits: "3 * nFaces < 2 ^ 64"
    and buf: "indices = None \<or> readable indices (3 * nFaces)"
  shows "((\<exists>m'. SetIndexData a nFaces indices m = Returns (E_INVALIDARG, m'))
            \<longleftrightarrow> nFaces = 0 \<or> indices = None)
       \<and> ((\<exists>m'. SetIndexData a nFaces indices m
                   = Returns (HRESULT_FROM_WIN32 ERROR_ARITHMETIC_OVERFLOW, m'))
            \<longleftrightarrow> nFaces \<noteq> 0 \<and> indices \<noteq> None \<and> UINT32_MAX \<le> 3 * nFaces)
       \<and> ((\<exists>m'. SetIndexData a nFaces indices m = Returns (E_OUTOFMEMORY, m'))
            \<longleftrightarrow> nFaces \<noteq> 0 \<and> indices \<noteq> None \<and> 3 * nFaces < UINT32_MAX \<and> a = None)
       \<and> (nFaces \<noteq> 0 \<and> indices \<noteq> None \<and> 3 * nFaces < UINT32_MAX \<and> a = None
            \<longrightarrow> SetIndexData a nFaces indices m
                  = Returns (E_OUTOFMEMORY,
                             m\<lparr>mnFaces := 0, mIndices := None, mAttributes := None\<rparr>))
       \<and> (nFaces \<noteq> 0 \<and> indices \<noteq> None \<and> 3 * nFaces < UINT32_MAX \<and> a \<noteq> None
            \<longrightarrow> (\<exists>m'. SetIndexData a nFaces indices m = Returns (S_OK, m')
                  \<and> GetIndexBuffer m' = Some (take (3 * nFaces) (the indices))
                  \<and> length (the (GetIndexBuffer m')) = 3 * nFaces
                  \<and> GetFaceCount m' = nFaces))"
  using buf
  by (auto simp: SetIndexData_cases wf_product[OF fits] codes_distinct codes_distinct[symmetric]
        GetIndexBuffer_def GetFaceCount_def readable_def split: option.splits)

text \<open>
  One face with its three indices and a successful allocation: the call succeeds and
  the mesh holds the copy.
\<close>

theorem SetIndexData_contract_witness:
  "3 * (1::nat) < 2 ^ 64 \<and> readable (Some [0, 1, 2 :: uint32_t]) (3 * 1)
   \<and> SetIndexData (Some (\<lambda>_. 0)) 1 (Some [0, 1, 2]) mesh0
       = Returns (S_OK, mesh0\<lparr>mnFaces := 1, mIndices := Some [0, 1, 2]\<rparr>)
   \<and> (\<exists>m'. SetIndexData (Some (\<lambda>_. 0)) 1 (Some [0, 1, 2]) mesh0 = Returns (S_OK, m')
          \<and> GetIndexBuffer m' = Some [0, 1, 2] \<and> GetFaceCount m' = 1)"
proof -
  have fits: "3 * (1::nat) < 2 ^ 64" by simp
  have buf: "Some [0, 1, 2 :: uint32_t] = None \<or> readable (Some [0, 1, 2 :: uint32_t]) (3 * 1)"
    by (simp add: readable_def)
  have run: "SetIndexData (Some (\<lambda>_. 0)) 1 (Some [0, 1, 2]) mesh0
       = Returns (S_OK, mesh0\<lparr>mnFaces := 1, mIndices := Some [0, 1, 2]\<rparr>)"
    by (simp add: SetIndexData_cases SIZE_MOD_def UINT32_MAX_def readable_def mesh0_def
          Mesh_new_def)
  show ?thesis
    using SetIndexData_contract [OF fits buf, of "Some (\<lambda>_. 0)" mesh0] run
    by (simp add: readable_def UINT32_MAX_def)
qed

text \<open>
  The claim as stated fails twice. With \<open>faceCount = 1431655765\<close> the product is exactly
  \<open>UINT32_MAX\<close>, which does not exceed the 32-bit range, yet the call fails with the
  overflow code. With one valid face and a failing allocation the call neither
  succeeds nor reports \<open>E_INVALIDARG\<close> or overflow: it returns \<open>E_OUTOFMEMORY\<close>.
\<close>

theorem SetIndexData_counterexample:
  "SetIndexData (Some (\<lambda>_. 0)) 1431655765 (Some buffer_4G) mesh0
       = Returns (HRESULT_FROM_WIN32 ERROR_ARITHMETIC_OVERFLOW, mesh0)
   \<and> 3 * 1431655765 = UINT32_MAX
   \<and> SetIndexData None 1 (Some [0, 1, 2]) mesh0 = Returns (E_OUTOFMEMORY, mesh0)
   \<and> E_OUTOFMEMORY \<noteq> S_OK \<and> E_OUTOFMEMORY \<noteq> E_INVALIDARG
   \<and> E_OUTOFMEMORY \<noteq> HRESULT_FROM_WIN32 ERROR_ARITHMETIC_OVERFLOW"
  by (simp add: SetIndexData_def Let_def SIZE_MOD_def UINT32_MAX_def new_nothrow_def
        mesh0_def Mesh_new_def codes_distinct codes_distinct[symmetric])

section \<open>SetVertexData\<close>

text \<open>
  C6. \<open>SetVertexData\<close> fails with \<open>E_INVALIDARG\<close> exactly when \<open>vertexCount\<close> is zero.
  Whenever it succeeds, \<open>GetVertexCount()\<close> is \<open>vertexCount\<close>, the normal buffer is
  cleared, and the position buffer has \<open>vertexCount\<close> entries of which entry \<open>i\<close> is
  \<open>(xs[i], ys[i], zs[i])\<close>.
\<close>

theorem SetVertexData_contract:
  "((\<exists>m'. SetVertexData a xs ys zs nVerts m = Returns (E_INVALIDARG, m')) \<longleftrightarrow> nVerts = 0)
   \<and> (\<forall>hr m'. SetVertexData a xs ys zs nVerts m = Returns (hr, m') \<and> \<not> FAILED hr \<longrightarrow>
         GetVertexCount m' = nVerts \<and> mNormals m' = None
         \<and> (\<exists>bx by bz pos. xs = Some bx \<and> ys = Some by \<and> zs = Some bz
               \<and> GetPositionBuffer m' = Some pos \<and> length pos = nVerts
               \<and> nVerts \<le> length bx \<and> nVerts \<le> length by \<and> nVerts \<le> length bz
               \<and> (\<forall>i<nVerts. pos ! i = XMFLOAT3 (bx ! i) (by ! i) (bz ! i))))"
  by (auto simp: SetVertexData_cases FAILED_codes codes_distinct codes_distinct[symmetric]
        GetVertexCount_def GetPositionBuffer_def readable_def split: option.splits if_splits)

text \<open>Two vertices loaded into a mesh that had a normal buffer.\<close>

theorem SetVertexData_contract_witness:
  "SetVertexData (Some (\<lambda>_. XMFLOAT3 0 0 0)) (Some [1, 2]) (Some [3, 4]) (Some [5, 6]) 2
       (mesh0\<lparr>mNormals := Some [XMFLOAT3 0 0 1]\<rparr>)
     = Returns (S_OK, mesh0\<lparr>mnVerts := 2,
                  mPositions := Some [XMFLOAT3 1 3 5, XMFLOAT3 2 4 6]\<rparr>)
   \<and> \<not> FAILED S_OK
   \<and> GetVertexCount (mesh0\<lparr>mnVerts := 2,
                  mPositions := Some [XMFLOAT3 1 3 5, XMFLOAT3 2 4 6]\<rparr>) = 2
   \<and> mNormals (mesh0\<lparr>mnVerts := 2,
                  mPositions := Some [XMFLOAT3 1 3 5, XMFLOAT3 2 4 6]\<rparr>) = None"
proof -
  have run: "SetVertexData (Some (\<lambda>_. XMFLOAT3 0 0 0)) (Some [1, 2]) (Some [3, 4])
       (Some [5, 6]) 2 (mesh0\<lparr>mNormals := Some [XMFLOAT3 0 0 1]\<rparr>)
     = Returns (S_OK, mesh0\<lparr>mnVerts := 2,
                  mPositions := Some [XMFLOAT3 1 3 5, XMFLOAT3 2 4 6]\<rparr>)"
    by (simp add: SetVertexData_cases readable_def mesh0_def Mesh_new_def numeral_2_eq_2)
  show ?thesis
    using SetVertexData_contract [of "Some (\<lambda>_. XMFLOAT3 0 0 0)" "Some [1, 2]" "Some [3, 4]"
        "Some [5, 6]" 2 "mesh0\<lparr>mNormals := Some [XMFLOAT3 0 0 1]\<rparr>"] run
    by (simp add: FAILED_codes)
qed

text \<open>
  C10 (amended). \<open>SetVertexData\<close> rejects only a zero \<open>vertexCount\<close>: for a nonzero
  count it never returns \<open>E_INVALIDARG\<close>, whatever the three pointers are. It performs
  no null check: once the position allocation has succeeded it reads \<open>vertexCount\<close>
  entries from each of \<open>xs\<close>, \<open>ys\<close>, \<open>zs\<close>, so the call faults exactly when one of them
  is null or shorter, and in particular on any null array. \<open>SetIndexData\<close>, in contrast,
  answers a null index pointer with \<open>E_INVALIDARG\<close> and leaves the mesh as it was.
\<close>

theorem SetVertexData_no_null_check:
  assumes "nVerts \<noteq> 0"
  shows "(\<forall>m'. SetVertexData a xs ys zs nVerts m \<noteq> Returns (E_INVALIDARG, m'))
       \<and> (a \<noteq> None \<longrightarrow>
            (SetVertexData a xs ys zs nVerts m = Fault
               \<longleftrightarrow> \<not> (readable xs nVerts \<and> readable ys nVerts \<and> readable zs nVerts)))
       \<and> (a \<noteq> None \<and> (xs = None \<or> ys = None \<or> zs = None)
            \<longrightarrow> SetVertexData a xs ys zs nVerts m = Fault)
       \<and> SetIndexData a' nFaces None m = Returns (E_INVALIDARG, m)"
  using assms
  by (auto simp: SetVertexData_cases SetIndexData_cases codes_distinct codes_distinct[symmetric]
        readable_def split: option.splits)

text \<open>A null \<open>xs\<close> with one vertex requested faults; a null index pointer is rejected.\<close>

theorem SetVertexData_no_null_check_witness:
  "(1::nat) \<noteq> 0
   \<and> SetVertexData (Some (\<lambda>_. XMFLOAT3 0 0 0)) None (Some [3]) (Some [5]) 1 mesh0 = Fault
   \<and> SetIndexData None 1 None mesh0 = Returns (E_INVALIDARG, mesh0)"
proof -
  have nz: "(1::nat) \<noteq> 0" by simp
  show ?thesis
    using SetVertexData_no_null_check [OF nz, of "Some (\<lambda>_. XMFLOAT3 0 0 0)" None "Some [3]"
        "Some [5]" mesh0 None 1]
    by simp
qed

text \<open>
  The claim as stated fails when the position allocation fails: with one vertex
  requested and all three arrays null the call returns \<open>E_OUTOFMEMORY\<close> before the
  loop, reading nothing.
\<close>

theorem SetVertexData_counterexample:
  "SetVertexData None None None None 1 mesh0 = Returns (E_OUTOFMEMORY, mesh0)
   \<and> SetVertexData None None None None 1 mesh0 \<noteq> Fault"
  by (simp add: SetVertexData_def new_nothrow_def mesh0_def Mesh_new_def)

section \<open>Clean\<close>

lemma upt3: "[0..<3] = [0, 1, 2]"
  by code_simp

lemma upt6: "[0..<6] = [0, 1, 2, 3, 4, 5]"
  by code_simp

lemma copy_dups_None:
  assumes "copy_dups dups j nNew m pos None = Returns (pos', norms')"
    and "j + length dups \<le> nNew" "nNew \<le> length pos" "mPositions m = Some P"
  shows "norms' = None \<and> (\<forall>d\<in>set dups. unat d < mnVerts m \<and> unat d < length P)
       \<and> pos' = take j pos @ map (\<lambda>d. P ! unat d) dups @ drop (j + length dups) pos"
  using assms
proof (induction dups arbitrary: j pos)
  case Nil
  then show ?case by simp
next
  case (Cons it rest)
  from Cons.prems have j: "j < nNew" "j < length pos" by simp_all
  from Cons.prems j have it: "unat it < mnVerts m" "unat it < length P"
    by (auto simp: rd_def split: if_splits outcome.splits)
  with Cons.prems j have rec: "copy_dups rest (Suc j) nNew m (pos[j := P ! unat it]) None
      = Returns (pos', norms')"
    by (simp add: rd_def)
  have "norms' = None \<and> (\<forall>d\<in>set rest. unat d < mnVerts m \<and> unat d < length P)
       \<and> pos' = take (Suc j) (pos[j := P ! unat it]) @ map (\<lambda>d. P ! unat d) rest
                  @ drop (Suc j + length rest) (pos[j := P ! unat it])"
    using Cons.IH[OF rec] Cons.prems by simp
  then show ?case
    using it j by (simp add: take_Suc_conv_app_nth)
qed

lemma copy_dups_Some:
  assumes "copy_dups dups j nNew m pos (Some nb) = Returns (pos', norms')"
    and "j + length dups \<le> nNew" "nNew \<le> length pos" "nNew \<le> length nb"
    and "mPositions m = Some P" "mNormals m = Some N"
  shows "(\<forall>d\<in>set dups. unat d < mnVerts m \<and> unat d < length P \<and> unat d < length N)
       \<and> pos' = take j pos @ map (\<lambda>d. P ! unat d) dups @ drop (j + length dups) pos
       \<and> norms' = Some (take j nb @ map (\<lambda>d. N ! unat d) dups @ drop (j + length dups) nb)"
  using assms
proof (induction dups arbitrary: j pos nb)
  case Nil
  then show ?case by simp
next
  case (Cons it rest)
  from Cons.prems have j: "j < nNew" "j < length pos" "j < length nb" by simp_all
  from Cons.prems j have it: "unat it < mnVerts m" "unat it < length P" "unat it < length N"
    by (auto simp: rd_def split: if_splits outcome.splits)
  with Cons.prems j have rec: "copy_dups rest (Suc j) nNew m (pos[j := P ! unat it])
      (Some (nb[j := N ! unat it])) = Returns (pos', norms')"
    by (simp add: rd_def)
  have "(\<forall>d\<in>set rest. unat d < mnVerts m \<and> unat d < length P \<and> unat d < length N)
       \<and> pos' = take (Suc j) (pos[j := P ! unat it]) @ map (\<lambda>d. P ! unat d) rest
                  @ drop (Suc j + length rest) (pos[j := P ! unat it])
       \<and> norms' = Some (take (Suc j) (nb[j := N ! unat it]) @ map (\<lambda>d. N ! unat d) rest
                  @ drop (Suc j + length rest) (nb[j := N ! unat it]))"
    using Cons.IH[OF rec] Cons.prems by simp
  then show ?case
    using it j by (simp add: take_Suc_conv_app_nth)
qed

lemma memcpy_new:
  "memcpy (new_array g k) src n = Returns buf \<Longrightarrow>
     \<exists>B. src = Some B \<and> n \<le> length B \<and> n \<le> k \<and> buf = take n B @ drop n (new_array g k)"
  by (auto simp: memcpy_def split: option.splits if_splits)

lemma Clean_commit_None:
  assumes "Clean_commit dups (n + length dups) m m1 (take n P @ drop n (new_array g (n + length dups))) None
             = Returns (hr, m')"
    and "mnVerts m = n" "mPositions m = Some P" "n \<le> length P"
  shows "hr = S_OK \<and> (\<forall>d\<in>set dups. unat d < n \<and> unat d < length P)
       \<and> m' = m1\<lparr>mPositions := Some (take n P @ map (\<lambda>d. P ! unat d) dups),
                  mNormals := None, mnVerts := n + length dups\<rparr>"
proof -
  let ?pos1 = "take n P @ drop n (new_array g (n + length dups))"
  from assms(1) obtain pos' norms' where
    cd: "copy_dups dups (mnVerts m) (n + length dups) m ?pos1 None = Returns (pos', norms')"
    and res: "hr = S_OK" "m' = m1\<lparr>mPositions := Some pos', mNormals := norms',
                                   mnVerts := n + length dups\<rparr>"
    by (auto simp: Clean_commit_def split: outcome.splits)
  have len: "length ?pos1 = n + length dups" using assms(4) by simp
  from copy_dups_None[OF cd[unfolded assms(2)] _ _ assms(3)] len assms(2,4)
  show ?thesis using res by simp
qed

lemma Clean_commit_Some:
  assumes "Clean_commit dups (n + length dups) m m1
             (take n P @ drop n (new_array g (n + length dups)))
             (Some (take n N @ drop n (new_array g' (n + length dups))))
             = Returns (hr, m')"
    and "mnVerts m = n" "mPositions m = Some P" "n \<le> length P"
    and "mNormals m = Some N" "n \<le> length N"
  shows "hr = S_OK \<and> (\<forall>d\<in>set dups. unat d < n \<and> unat d < length P \<and> unat d < length N)
       \<and> m' = m1\<lparr>mPositions := Some (take n P @ map (\<lambda>d. P ! unat d) dups),
                  mNormals := Some (take n N @ map (\<lambda>d. N ! unat d) dups),
                  mnVerts := n + length dups\<rparr>"
proof -
  let ?pos1 = "take n P @ drop n (new_array g (n + length dups))"
  let ?nb1 = "take n N @ drop n (new_array g' (n + length dups))"
  from assms(1) obtain pos' norms' where
    cd: "copy_dups dups (mnVerts m) (n + length dups) m ?pos1 (Some ?nb1) = Returns (pos', norms')"
    and res: "hr = S_OK" "m' = m1\<lparr>mPositions := Some pos', mNormals := norms',
                                   mnVerts := n + length dups\<rparr>"
    by (auto simp: Clean_commit_def split: outcome.splits)
  have len: "length ?pos1 = n + length dups" "length ?nb1 = n + length dups"
    using assms(4,6) by simp_all
  from copy_dups_Some[OF cd[unfolded assms(2)] _ _ _ assms(3) assms(5)] len assms(2,4,6)
  show ?thesis using res by simp
qed

text \<open>What a successful \<open>Clean\<close> has done.\<close>

lemma Clean_success:
  assumes run: "Clean dxClean a_pos a_norms bb m = Returns (hr, m')"
    and ok: "\<not> FAILED hr"
    and dx: "dxClean (the (mIndices m)) (mnFaces m) (mnVerts m) (mAdjacency m) (mAttributes m) bb
               = (hr0, ib, adj, dups)"
  shows "hr = S_OK \<and> \<not> FAILED hr0 \<and> mnFaces m \<noteq> 0 \<and> mnVerts m \<noteq> 0 \<and> mIndices m \<noteq> None
    \<and> (\<exists>P. mPositions m = Some P
          \<and> (\<forall>d\<in>set dups. unat d < mnVerts m \<and> unat d < length P)
          \<and> (dups = [] \<longrightarrow> m' = m\<lparr>mIndices := Some ib, mAdjacency := adj\<rparr>)
          \<and> (dups \<noteq> [] \<longrightarrow> mnVerts m \<le> length P
                \<and> (case mNormals m of
                      None \<Rightarrow> m' = m\<lparr>mIndices := Some ib, mAdjacency := adj,
                                  mPositions := Some (take (mnVerts m) P @ map (\<lambda>d. P ! unat d) dups),
                                  mNormals := None, mnVerts := mnVerts m + length dups\<rparr>
                    | Some N \<Rightarrow> mnVerts m \<le> length N \<and> (\<forall>d\<in>set dups. unat d < length N)
                         \<and> m' = m\<lparr>mIndices := Some ib, mAdjacency := adj,
                                  mPositions := Some (take (mnVerts m) P @ map (\<lambda>d. P ! unat d) dups),
                                  mNormals := Some (take (mnVerts m) N @ map (\<lambda>d. N ! unat d) dups),
                                  mnVerts := mnVerts m + length dups\<rparr>)))"
proof -
  from run ok have pop: "mnFaces m \<noteq> 0" "mnVerts m \<noteq> 0" "mIndices m \<noteq> None" "mPositions m \<noteq> None"
    by (auto simp: Clean_def FAILED_codes split: if_splits)
  then obtain P where P: "mPositions m = Some P" by auto
  let ?m1 = "m\<lparr>mIndices := Some ib, mAdjacency := adj\<rparr>"
  from run ok pop dx have hr0: "\<not> FAILED hr0"
    by (auto simp: Clean_def Let_def split: if_splits)
  show ?thesis
  proof (cases "dups = []")
    case True
    with run pop dx hr0 have "hr = S_OK" "m' = ?m1"
      by (auto simp: Clean_def Let_def)
    with True pop P hr0 show ?thesis by simp
  next
    case False
    from run ok pop dx hr0 False obtain g where g: "a_pos = Some g"
      by (cases a_pos) (auto simp: Clean_def Let_def new_nothrow_def FAILED_codes)
    let ?n = "mnVerts m"
    let ?k = "?n + length dups"
    from run pop dx hr0 False g obtain pos1 where
      mc: "memcpy (new_array g ?k) (mPositions m) ?n = Returns pos1"
      by (auto simp: Clean_def Let_def new_nothrow_def split: outcome.splits)
    from memcpy_new[OF mc] P have nP: "?n \<le> length P"
      and pos1: "pos1 = take ?n P @ drop ?n (new_array g ?k)" by auto
    show ?thesis
    proof (cases "mNormals m")
      case None
      with run pop dx hr0 False g mc have
        "Clean_commit dups ?k m ?m1 pos1 None = Returns (hr, m')"
        by (simp add: Clean_def Let_def new_nothrow_def)
      from Clean_commit_None[OF this[unfolded pos1] refl P nP] None False P pop hr0 nP
      show ?thesis by simp
    next
      case (Some N)
      from run ok pop dx hr0 False g mc Some obtain g' where g': "a_norms = Some g'"
        by (cases a_norms) (auto simp: Clean_def Let_def new_nothrow_def FAILED_codes)
      from run pop dx hr0 False g mc Some g' obtain nb1 where
        mn: "memcpy (new_array g' ?k) (mNormals m) ?n = Returns nb1"
        by (auto simp: Clean_def Let_def new_nothrow_def split: outcome.splits)
      from memcpy_new[OF mn] Some have nN: "?n \<le> length N"
        and nb1: "nb1 = take ?n N @ drop ?n (new_array g' ?k)" by auto
      from run pop dx hr0 False g mc Some g' mn have
        "Clean_commit dups ?k m ?m1 pos1 (Some nb1) = Returns (hr, m')"
        by (simp add: Clean_def Let_def new_nothrow_def)
      from Clean_commit_Some[OF this[unfolded pos1 nb1] refl P nP Some nN] Some False P pop hr0 nP nN
      show ?thesis by simp
    qed
  qed
qed

lemma bowtie_run:
  "Clean bowtie_Clean (Some zero3) (Some zero3) True bowtie
     = Returns (S_OK, bowtie\<lparr>mIndices := Some [0, 1, 2, 5, 3, 4], mnVerts := 6,
          mPositions := Some [XMFLOAT3 0 0 0, XMFLOAT3 1 0 0, XMFLOAT3 0 1 0,
                              XMFLOAT3 (- 1) 0 0, XMFLOAT3 0 (- 1) 0, XMFLOAT3 0 0 0],
          mNormals := Some [XMFLOAT3 0 0 1, XMFLOAT3 0 0 2, XMFLOAT3 0 0 3,
                            XMFLOAT3 0 0 4, XMFLOAT3 0 0 5, XMFLOAT3 0 0 1]\<rparr>)"
  by (simp add: Clean_def Clean_commit_def bowtie_def bowtie_Clean_def FAILED_codes
        new_nothrow_def new_array_def memcpy_def rd_def zero3_def Let_def upt6)

text \<open>
  C3. Whenever \<open>Clean\<close> succeeds, \<open>faceCount\<close> is what it was, \<open>vertexCount\<close> has grown
  by exactly the number of duplications the cleaner requested, and the appended slot
  for the \<open>k\<close>-th duplication holds a copy of the position of the original vertex
  \<open>dups[k]\<close>, and of its normal when the mesh has normals (without normals it still has
  none).
\<close>

theorem Clean_counts_and_copies:
  assumes run: "Clean dxClean a_pos a_norms bb m = Returns (hr, m')"
    and ok: "\<not> FAILED hr"
    and dx: "dxClean (the (mIndices m)) (mnFaces m) (mnVerts m) (mAdjacency m) (mAttributes m) bb
               = (hr0, ib, adj, dups)"
  shows "GetFaceCount m' = GetFaceCount m
       \<and> GetVertexCount m' = GetVertexCount m + length dups
       \<and> (\<exists>P P'. mPositions m = Some P \<and> mPositions m' = Some P'
            \<and> (\<forall>k<length dups. unat (dups ! k) < GetVertexCount m \<and> unat (dups ! k) < length P
                  \<and> GetVertexCount m + k < length P'
                  \<and> P' ! (GetVertexCount m + k) = P ! unat (dups ! k)))
       \<and> (mNormals m = None \<longrightarrow> mNormals m' = None)
       \<and> (\<forall>N. mNormals m = Some N \<longrightarrow>
            (\<exists>N'. mNormals m' = Some N'
               \<and> (\<forall>k<length dups. unat (dups ! k) < length N \<and> GetVertexCount m + k < length N'
                     \<and> N' ! (GetVertexCount m + k) = N ! unat (dups ! k))))"
proof -
  from Clean_success[OF run ok dx] obtain P where
    P: "mPositions m = Some P"
    and rng: "\<forall>d\<in>set dups. unat d < mnVerts m \<and> unat d < length P"
    and nodup: "dups = [] \<longrightarrow> m' = m\<lparr>mIndices := Some ib, mAdjacency := adj\<rparr>"
    and dup: "dups \<noteq> [] \<longrightarrow> mnVerts m \<le> length P
                \<and> (case mNormals m of
                      None \<Rightarrow> m' = m\<lparr>mIndices := Some ib, mAdjacency := adj,
                                  mPositions := Some (take (mnVerts m) P @ map (\<lambda>d. P ! unat d) dups),
                                  mNormals := None, mnVerts := mnVerts m + length dups\<rparr>
                    | Some N \<Rightarrow> mnVerts m \<le> length N \<and> (\<forall>d\<in>set dups. unat d < length N)
                         \<and> m' = m\<lparr>mIndices := Some ib, mAdjacency := adj,
                                  mPositions := Some (take (mnVerts m) P @ map (\<lambda>d. P ! unat d) dups),
                                  mNormals := Some (take (mnVerts m) N @ map (\<lambda>d. N ! unat d) dups),
                                  mnVerts := mnVerts m + length dups\<rparr>)"
    by blast
  show ?thesis
  proof (cases "dups = []")
    case True
    with nodup P show ?thesis by (simp add: GetFaceCount_def GetVertexCount_def)
  next
    case False
    with dup have nP: "mnVerts m \<le> length P" by simp
    show ?thesis
    proof (cases "mNormals m")
      case None
      with dup False have m': "m' = m\<lparr>mIndices := Some ib, mAdjacency := adj,
          mPositions := Some (take (mnVerts m) P @ map (\<lambda>d. P ! unat d) dups),
          mNormals := None, mnVerts := mnVerts m + length dups\<rparr>" by simp
      show ?thesis
        using P None nP rng
        by (simp add: m' GetFaceCount_def GetVertexCount_def nth_append)
    next
      case (Some N)
      with dup False have nN: "mnVerts m \<le> length N"
        and rngN: "\<forall>d\<in>set dups. unat d < length N"
        and m': "m' = m\<lparr>mIndices := Some ib, mAdjacency := adj,
          mPositions := Some (take (mnVerts m) P @ map (\<lambda>d. P ! unat d) dups),
          mNormals := Some (take (mnVerts m) N @ map (\<lambda>d. N ! unat d) dups),
          mnVerts := mnVerts m + length dups\<rparr>" by simp_all
      show ?thesis
        using P Some nP nN rng rngN
        by (simp add: m' GetFaceCount_def GetVertexCount_def nth_append)
    qed
  qed
qed

text \<open>The bowtie with its shared vertex split: one vertex appended, a copy of vertex 0.\<close>

theorem Clean_counts_and_copies_witness:
  "Clean bowtie_Clean (Some zero3) (Some zero3) True bowtie
     = Returns (S_OK, bowtie\<lparr>mIndices := Some [0, 1, 2, 5, 3, 4], mnVerts := 6,
          mPositions := Some [XMFLOAT3 0 0 0, XMFLOAT3 1 0 0, XMFLOAT3 0 1 0,
                              XMFLOAT3 (- 1) 0 0, XMFLOAT3 0 (- 1) 0, XMFLOAT3 0 0 0],
          mNormals := Some [XMFLOAT3 0 0 1, XMFLOAT3 0 0 2, XMFLOAT3 0 0 3,
                            XMFLOAT3 0 0 4, XMFLOAT3 0 0 5, XMFLOAT3 0 0 1]\<rparr>)
   \<and> \<not> FAILED S_OK
   \<and> bowtie_Clean (the (mIndices bowtie)) (mnFaces bowtie) (mnVerts bowtie) (mAdjacency bowtie)
        (mAttributes bowtie) True = (S_OK, [0, 1, 2, 5, 3, 4], mAdjacency bowtie, [0])
   \<and> GetFaceCount (bowtie\<lparr>mIndices := Some [0, 1, 2, 5, 3, 4], mnVerts := 6,
          mPositions := Some [XMFLOAT3 0 0 0, XMFLOAT3 1 0 0, XMFLOAT3 0 1 0,
                              XMFLOAT3 (- 1) 0 0, XMFLOAT3 0 (- 1) 0, XMFLOAT3 0 0 0],
          mNormals := Some [XMFLOAT3 0 0 1, XMFLOAT3 0 0 2, XMFLOAT3 0 0 3,
                            XMFLOAT3 0 0 4, XMFLOAT3 0 0 5, XMFLOAT3 0 0 1]\<rparr>) = GetFaceCount bowtie
   \<and> GetVertexCount (bowtie\<lparr>mIndices := Some [0, 1, 2, 5, 3, 4], mnVerts := 6,
          mPositions := Some [XMFLOAT3 0 0 0, XMFLOAT3 1 0 0, XMFLOAT3 0 1 0,
                              XMFLOAT3 (- 1) 0 0, XMFLOAT3 0 (- 1) 0, XMFLOAT3 0 0 0],
          mNormals := Some [XMFLOAT3 0 0 1, XMFLOAT3 0 0 2, XMFLOAT3 0 0 3,
                            XMFLOAT3 0 0 4, XMFLOAT3 0 0 5, XMFLOAT3 0 0 1]\<rparr>)
       = GetVertexCount bowtie + length [0 :: uint32_t]"
proof -
  have dx: "bowtie_Clean (the (mIndices bowtie)) (mnFaces bowtie) (mnVerts bowtie)
      (mAdjacency bowtie) (mAttributes bowtie) True = (S_OK, [0, 1, 2, 5, 3, 4], mAdjacency bowtie, [0])"
    by (simp add: bowtie_Clean_def bowtie_def)
  have ok: "\<not> FAILED S_OK" by (rule FAILED_codes)
  show ?thesis
    using Clean_counts_and_copies [OF bowtie_run ok dx] bowtie_run ok dx by simp
qed




text \<open>
  C2. The claim does not hold of \<open>Clean\<close>. On the bowtie the cleaner rewrites the
  second face to reference the new slot 5 and requests one duplication; when either
  allocation then fails, \<open>Clean\<close> returns \<open>E_OUTOFMEMORY\<close> with the rewritten index buffer
  in place and \<open>vertexCount\<close> still 5: the mesh is neither its pre-call state nor reset,
  and index 5 references a vertex slot that does not exist.
\<close>

theorem Clean_out_of_memory_keeps_rewritten_indices:
  "Clean bowtie_Clean None (Some zero3) True bowtie
     = Returns (E_OUTOFMEMORY, bowtie\<lparr>mIndices := Some [0, 1, 2, 5, 3, 4]\<rparr>)
   \<and> Clean bowtie_Clean (Some zero3) None True bowtie
     = Returns (E_OUTOFMEMORY, bowtie\<lparr>mIndices := Some [0, 1, 2, 5, 3, 4]\<rparr>)
   \<and> GetVertexCount (bowtie\<lparr>mIndices := Some [0, 1, 2, 5, 3, 4]\<rparr>) = 5
   \<and> GetIndexBuffer (bowtie\<lparr>mIndices := Some [0, 1, 2, 5, 3, 4]\<rparr>) = Some [0, 1, 2, 5, 3, 4]
   \<and> GetIndexBuffer bowtie = Some [0, 1, 2, 0, 3, 4]"
  by (simp add: Clean_def bowtie_def bowtie_Clean_def FAILED_codes new_nothrow_def
        new_array_def memcpy_def zero3_def Let_def upt6 GetVertexCount_def GetIndexBuffer_def)

section \<open>GenerateAdjacency\<close>

text \<open>
  C8 (amended). If the adjacency buffer can be allocated in both runs, and the external
  builder computes its output from its inputs alone (it overwrites the buffer it is
  given, whatever that held), then a second run of \<open>GenerateAdjacency\<close> with the same
  epsilon on the mesh left by the first returns the same result code and leaves that
  mesh, adjacency buffer included, exactly as the first run left it.
\<close>

theorem GenerateAdjacency_twice:
  assumes a1: "a1 \<noteq> None" and a2: "a2 \<noteq> None"
    and out: "\<And>b1 b2. length b1 = length b2 \<Longrightarrow>
                dxGenAdj (the (mIndices m)) (mnFaces m) (the (mPositions m)) (mnVerts m) eps b1
                  = dxGenAdj (the (mIndices m)) (mnFaces m) (the (mPositions m)) (mnVerts m) eps b2"
    and run: "GenerateAdjacency dxGenAdj a1 eps m = Returns (hr1, m1)"
  shows "GenerateAdjacency dxGenAdj a2 eps m1 = Returns (hr1, m1)"
proof -
  from a1 a2 obtain g1 g2 where g: "a1 = Some g1" "a2 = Some g2" by auto
  let ?n3 = "(mnFaces m * 3) mod SIZE_MOD"
  have same: "dxGenAdj (the (mIndices m)) (mnFaces m) (the (mPositions m)) (mnVerts m) eps
                (new_array g2 ?n3)
              = dxGenAdj (the (mIndices m)) (mnFaces m) (the (mPositions m)) (mnVerts m) eps
                (new_array g1 ?n3)"
    by (rule out) simp
  show ?thesis
    using run g same
    by (auto simp: GenerateAdjacency_def Let_def new_nothrow_def split: if_splits prod.splits)
qed

text \<open>A single triangle: both runs leave three "no neighbor" entries.\<close>

theorem GenerateAdjacency_twice_witness:
  "Some junk32 \<noteq> None
   \<and> GenerateAdjacency no_neighbour_adjacency (Some junk32) 0 triangle
       = Returns (S_OK, triangle\<lparr>mAdjacency := Some [0xFFFFFFFF, 0xFFFFFFFF, 0xFFFFFFFF]\<rparr>)
   \<and> GenerateAdjacency no_neighbour_adjacency (Some junk32) 0
        (triangle\<lparr>mAdjacency := Some [0xFFFFFFFF, 0xFFFFFFFF, 0xFFFFFFFF]\<rparr>)
       = Returns (S_OK, triangle\<lparr>mAdjacency := Some [0xFFFFFFFF, 0xFFFFFFFF, 0xFFFFFFFF]\<rparr>)"
proof -
  have a: "Some junk32 \<noteq> None" by simp
  have out: "\<And>b1 b2. length b1 = length b2 \<Longrightarrow>
      no_neighbour_adjacency (the (mIndices triangle)) (mnFaces triangle)
        (the (mPositions triangle)) (mnVerts triangle) 0 b1
      = no_neighbour_adjacency (the (mIndices triangle)) (mnFaces triangle)
        (the (mPositions triangle)) (mnVerts triangle) 0 b2"
    by (simp add: no_neighbour_adjacency_def)
  have run: "GenerateAdjacency no_neighbour_adjacency (Some junk32) 0 triangle
       = Returns (S_OK, triangle\<lparr>mAdjacency := Some [0xFFFFFFFF, 0xFFFFFFFF, 0xFFFFFFFF]\<rparr>)"
    by (simp add: GenerateAdjacency_def triangle_def no_neighbour_adjacency_def new_nothrow_def
          SIZE_MOD_def UINT32_MAX_def Let_def upt3 new_array_def junk32_def)
  show ?thesis
    using GenerateAdjacency_twice [OF a a out run] run by simp
qed

text \<open>
  The claim as stated fails when the allocation of the second run fails: the first run
  leaves an adjacency buffer, the second releases it and returns \<open>E_OUTOFMEMORY\<close>.
\<close>

theorem GenerateAdjacency_twice_counterexample:
  "GenerateAdjacency no_neighbour_adjacency (Some junk32) 0 triangle
       = Returns (S_OK, triangle\<lparr>mAdjacency := Some [0xFFFFFFFF, 0xFFFFFFFF, 0xFFFFFFFF]\<rparr>)
   \<and> GenerateAdjacency no_neighbour_adjacency None 0
        (triangle\<lparr>mAdjacency := Some [0xFFFFFFFF, 0xFFFFFFFF, 0xFFFFFFFF]\<rparr>)
       = Returns (E_OUTOFMEMORY, triangle\<lparr>mAdjacency := None\<rparr>)
   \<and> GetAdjacencyBuffer (triangle\<lparr>mAdjacency := None\<rparr>)
       \<noteq> GetAdjacencyBuffer (triangle\<lparr>mAdjacency := Some [0xFFFFFFFF, 0xFFFFFFFF, 0xFFFFFFFF]\<rparr>)"
  by (simp add: GenerateAdjacency_def triangle_def no_neighbour_adjacency_def new_nothrow_def
        SIZE_MOD_def UINT32_MAX_def Let_def upt3 new_array_def junk32_def GetAdjacencyBuffer_def)

section \<open>Move assignment and move construction\<close>



section \<open>The pipeline entry point\<close>

lemma map_index: "map (\<lambda>i. f (xs ! i)) [0..<length xs] = map f xs"
  by (rule nth_equalityI) auto

text \<open>The value of four bytes read as one little-endian 32-bit word.\<close>

lemma le32_value:
  fixes a b c d :: "8 word"
  shows "unat ((ucast a :: 32 word) OR push_bit 8 (ucast b) OR push_bit 16 (ucast c)
               OR push_bit 24 (ucast d))
         = unat a + 256 * unat b + 65536 * unat c + 16777216 * unat d"
proof -
  let ?A = "ucast a :: 32 word" and ?B = "push_bit 8 (ucast b) :: 32 word"
  and ?C = "push_bit 16 (ucast c) :: 32 word" and ?D = "push_bit 24 (ucast d) :: 32 word"
  have d1: "?C AND ?D = 0"
    by (auto simp: bit_eq_iff bit_simps dest: bit_imp_le_length)
  have d2: "?B AND (?C OR ?D) = 0"
    by (auto simp: bit_eq_iff bit_simps dest: bit_imp_le_length)
  have d3: "?A AND (?B OR (?C OR ?D)) = 0"
    by (auto simp: bit_eq_iff bit_simps dest: bit_imp_le_length)
  have eq: "?A OR ?B OR ?C OR ?D = ?A + (?B + (?C + ?D))"
    using disjunctive_add_eq_or[OF d1] disjunctive_add_eq_or[OF d2] disjunctive_add_eq_or[OF d3]
    by simp
  have la: "unat a < 256" and lb: "unat b < 256" and lc: "unat c < 256" and ld: "unat d < 256"
    using unsigned_less[of a, where 'a = nat] unsigned_less[of b, where 'a = nat]
      unsigned_less[of c, where 'a = nat] unsigned_less[of d, where 'a = nat] by simp_all
  have up: "unat (ucast x :: 32 word) = unat x" for x :: "8 word"
    using unsigned_less[of x, where 'a = nat]
    by (simp add: unsigned_ucast_eq take_bit_eq_mod)
  have ua: "unat ?A = unat a" by (rule up)
  have ub: "unat ?B = 256 * unat b"
    using lb by (simp add: unsigned_push_bit_eq[where 'a = nat] up push_bit_nat_def take_bit_eq_mod
        del: push_bit_eq_mult)
  have uc: "unat ?C = 65536 * unat c"
    using lc by (simp add: unsigned_push_bit_eq[where 'a = nat] up push_bit_nat_def take_bit_eq_mod)
  have ud: "unat ?D = 16777216 * unat d"
    using ld by (simp add: unsigned_push_bit_eq[where 'a = nat] up push_bit_nat_def take_bit_eq_mod)
  have "unat (?A + (?B + (?C + ?D)))
          = (unat a + 256 * unat b + 65536 * unat c + 16777216 * unat d) mod 2 ^ 32"
    by (simp add: unat_word_ariths ua ub uc ud mod_simps add.assoc)
  also have "\<dots> = unat a + 256 * unat b + 65536 * unat c + 16777216 * unat d"
    using la lb lc ld by simp
  finally show ?thesis using eq by simp
qed

lemma realIndices_value:
  "unat (realIndices ib i) = unat (ib ! (4 * i)) + 256 * unat (ib ! (4 * i + 1))
     + 65536 * unat (ib ! (4 * i + 2)) + 16777216 * unat (ib ! (4 * i + 3))"
  unfolding realIndices_def by (rule le32_value)

text \<open>The result is built exactly when all five plain allocations succeed.\<close>

lemma build_result_cases:
  "build_result env vb ib remap =
     (if alloc_result env \<and> alloc_us env \<noteq> None \<and> alloc_vs env \<noteq> None
         \<and> alloc_indices env \<noteq> None \<and> alloc_vertexRemap env \<noteq> None
      then Returns \<lparr>numVertices = of_nat (length vb),
                     p_us = Some (map (\<lambda>v. uv_x (vtx_uv v)) vb),
                     p_vs = Some (map (\<lambda>v. uv_y (vtx_uv v)) vb),
                     p_xs = junk_ptr env, p_ys = junk_ptr env, p_zs = junk_ptr env,
                     numFaces = of_nat (length ib div 4 div 3),
                     p_indices = Some (map (realIndices ib) [0..<length ib div 4]),
                     p_vertexRemap = Some remap\<rparr>
      else Fault)"
  by (auto simp: build_result_def new_plain_def Let_def fill_new map_nth
        map_index [of "\<lambda>v. uv_x (vtx_uv v)"] map_index [of "\<lambda>v. uv_y (vtx_uv v)"]
        split: option.splits)

lemma build_result_Returns:
  assumes "build_result env vb ib remap = Returns r"
  shows "alloc_result env \<and> alloc_us env \<noteq> None \<and> alloc_vs env \<noteq> None
       \<and> alloc_indices env \<noteq> None \<and> alloc_vertexRemap env \<noteq> None
       \<and> numVertices r = of_nat (length vb)
       \<and> p_us r = Some (map (\<lambda>v. uv_x (vtx_uv v)) vb)
       \<and> p_vs r = Some (map (\<lambda>v. uv_y (vtx_uv v)) vb)
       \<and> numFaces r = of_nat (length ib div 4 div 3)
       \<and> (\<exists>idx. p_indices r = Some idx \<and> length idx = length ib div 4
             \<and> (\<forall>i<length ib div 4.
                   unat (idx ! i) = unat (ib ! (4 * i)) + 256 * unat (ib ! (4 * i + 1))
                     + 65536 * unat (ib ! (4 * i + 2)) + 16777216 * unat (ib ! (4 * i + 3))))
       \<and> p_vertexRemap r = Some remap"
  using assms by (auto simp: build_result_cases realIndices_value split: if_splits)

text \<open>The pipeline on the single triangle, stage by stage.\<close>

lemma triangle_index_stage:
  "alloc_Mesh env \<Longrightarrow> alloc_ib env = Some junk32 \<Longrightarrow>
     index_stage env triangle_data = Returns (S_OK, triangle_mesh1)"
  by (simp add: call_through_def new_Mesh_nothrow_def SetIndexData_cases triangle_data_def
        triangle_mesh1_def Mesh_new_def SIZE_MOD_def UINT32_MAX_def readable_def)

lemma triangle_vertex_stage:
  "alloc_pos env = Some zero3 \<Longrightarrow>
     vertex_stage env triangle_data triangle_mesh1 = Returns (S_OK, triangle_mesh2)"
  by (simp add: SetVertexData_cases triangle_data_def triangle_mesh1_def
        triangle_mesh2_def Mesh_new_def readable_def upt3)

lemma triangle_adjacency_stage:
  "alloc_adj env = Some junk32 \<Longrightarrow> dxGenerateAdjacency env = no_neighbour_adjacency \<Longrightarrow>
     adjacency_stage env 0 triangle_mesh2 = Returns (S_OK, triangle_mesh3)"
  by (simp add: GenerateAdjacency_def triangle_mesh1_def
        triangle_mesh2_def triangle_mesh3_def Mesh_new_def no_neighbour_adjacency_def
        new_nothrow_def new_array_def SIZE_MOD_def UINT32_MAX_def Let_def upt3)

lemma triangle_atlas_stage:
  "dxUVAtlasCreate env = flat_atlas \<Longrightarrow>
     \<not> FAILED (fst (atlas_stage env triangle_data 0 0 0 512 512 0 triangle_mesh3))"
  by (simp add: flat_atlas_def FAILED_codes)

lemma realIndices_example:
  "realIndices [0, 0, 0, 0, 1, 0, 0, 0, 2, 0, 0, 0] 0 = 0"
  "realIndices [0, 0, 0, 0, 1, 0, 0, 0, 2, 0, 0, 0] (Suc 0) = 1"
  "realIndices [0, 0, 0, 0, 1, 0, 0, 0, 2, 0, 0, 0] 2 = 2"
  by code_simp+

lemma triangle_build:
  "build_result triangle_env
     [UVAtlasVertex (XMFLOAT3 0 0 0) (XMFLOAT2 0 0), UVAtlasVertex (XMFLOAT3 1 0 0) (XMFLOAT2 1 0),
       UVAtlasVertex (XMFLOAT3 0 1 0) (XMFLOAT2 0 1)]
      [0, 0, 0, 0, 1, 0, 0, 0, 2, 0, 0, 0] [0, 1, 2] = Returns triangle_atlas"
  by (simp add: build_result_cases upt3 realIndices_example triangle_env_def triangle_atlas_def)

lemma triangle_run:
  "UVAtlas triangle_env triangle_data 0 0 0 512 512 0 0 = Returns (Some triangle_atlas, 0)"
proof -
  have "index_stage triangle_env triangle_data = Returns (S_OK, triangle_mesh1)"
    by (rule triangle_index_stage) (simp_all add: triangle_env_def)
  moreover have "vertex_stage triangle_env triangle_data triangle_mesh1
                   = Returns (S_OK, triangle_mesh2)"
    by (rule triangle_vertex_stage) (simp add: triangle_env_def)
  moreover have "adjacency_stage triangle_env 0 triangle_mesh2 = Returns (S_OK, triangle_mesh3)"
    by (rule triangle_adjacency_stage) (simp_all add: triangle_env_def)
  moreover have "dxUVAtlasCreate triangle_env = flat_atlas"
    by (simp add: triangle_env_def)
  ultimately show ?thesis
    by (simp add: UVAtlas_def FAILED_codes flat_atlas_def triangle_build)
qed

lemma no_faces_index_stage:
  "index_stage triangle_env (triangle_data\<lparr>numFaces := 0\<rparr>) = Returns (E_INVALIDARG, Mesh_new)"
  by (simp add: call_through_def new_Mesh_nothrow_def triangle_env_def SetIndexData_cases
        triangle_data_def)

lemma no_memory_index_stage:
  "index_stage (triangle_env\<lparr>alloc_ib := None\<rparr>) triangle_data
     = Returns (E_OUTOFMEMORY, Mesh_new)"
  by (simp add: call_through_def new_Mesh_nothrow_def SetIndexData_cases triangle_env_def
        triangle_data_def Mesh_new_def SIZE_MOD_def UINT32_MAX_def)

lemma no_memory_vertex_stage:
  "vertex_stage (triangle_env\<lparr>alloc_pos := None\<rparr>) triangle_data triangle_mesh1
     = Returns (E_OUTOFMEMORY, triangle_mesh1)"
  by (simp add: SetVertexData_cases triangle_env_def triangle_data_def triangle_mesh1_def
        Mesh_new_def)

lemma no_memory_adjacency_stage:
  "adjacency_stage (triangle_env\<lparr>alloc_adj := None\<rparr>) 0 triangle_mesh2
     = Returns (E_OUTOFMEMORY, triangle_mesh2)"
  by (simp add: GenerateAdjacency_def triangle_env_def triangle_mesh1_def triangle_mesh2_def
        Mesh_new_def new_nothrow_def SIZE_MOD_def UINT32_MAX_def Let_def)

text \<open>
  C7 (amended). \<open>UVAtlas\<close> returns a non-null result exactly when index ingestion,
  vertex ingestion, adjacency generation and atlas creation all succeed, each on the mesh
  left by the one before, and the five allocations made for the result succeed as well.
  A returned result comes with \<open>returnCode\<close> 0 and is populated from what
  \<open>UVAtlasCreate\<close> produced: the UVs of its vertices, its index bytes read four at a time
  as little-endian 32-bit words, and its vertex remap. Whenever a stage fails, \<open>UVAtlas\<close>
  returns null with a nonzero \<open>returnCode\<close>.
\<close>

theorem UVAtlas_result_iff_stages_and_allocations:
  "((\<exists>r rc. UVAtlas env data maxCharts maxStretch gutter width height uvOptions epsilon
               = Returns (Some r, rc))
      \<longleftrightarrow> (\<exists>hr1 m1 hr2 m2 hr3 m3.
             index_stage env data = Returns (hr1, m1) \<and> \<not> FAILED hr1
           \<and> vertex_stage env data m1 = Returns (hr2, m2) \<and> \<not> FAILED hr2
           \<and> adjacency_stage env epsilon m2 = Returns (hr3, m3) \<and> \<not> FAILED hr3
           \<and> \<not> FAILED (fst (atlas_stage env data maxCharts maxStretch gutter width height
                                 uvOptions m3)))
          \<and> alloc_result env \<and> alloc_us env \<noteq> None \<and> alloc_vs env \<noteq> None
          \<and> alloc_indices env \<noteq> None \<and> alloc_vertexRemap env \<noteq> None)
   \<and> (\<forall>r rc. UVAtlas env data maxCharts maxStretch gutter width height uvOptions epsilon
               = Returns (Some r, rc) \<longrightarrow>
         rc = 0
         \<and> (\<exists>hr1 m1 hr2 m2 hr3 m3 hr4 vb ib remap idx.
               index_stage env data = Returns (hr1, m1)
             \<and> vertex_stage env data m1 = Returns (hr2, m2)
             \<and> adjacency_stage env epsilon m2 = Returns (hr3, m3)
             \<and> atlas_stage env data maxCharts maxStretch gutter width height uvOptions m3
                 = (hr4, vb, ib, remap)
             \<and> numVertices r = of_nat (length vb)
             \<and> p_us r = Some (map (\<lambda>v. uv_x (vtx_uv v)) vb)
             \<and> p_vs r = Some (map (\<lambda>v. uv_y (vtx_uv v)) vb)
             \<and> numFaces r = of_nat (length ib div 4 div 3)
             \<and> p_indices r = Some idx \<and> length idx = length ib div 4
             \<and> (\<forall>i<length ib div 4.
                   unat (idx ! i) = unat (ib ! (4 * i)) + 256 * unat (ib ! (4 * i + 1))
                     + 65536 * unat (ib ! (4 * i + 2)) + 16777216 * unat (ib ! (4 * i + 3)))
             \<and> p_vertexRemap r = Some remap))
   \<and> ((\<exists>hr1 m1. index_stage env data = Returns (hr1, m1)
          \<and> (FAILED hr1
              \<or> (\<exists>hr2 m2. vertex_stage env data m1 = Returns (hr2, m2)
                   \<and> (FAILED hr2
                       \<or> (\<exists>hr3 m3. adjacency_stage env epsilon m2 = Returns (hr3, m3)
                            \<and> (FAILED hr3
                                \<or> FAILED (fst (atlas_stage env data maxCharts maxStretch gutter
                                                 width height uvOptions m3))))))))
        \<longrightarrow> (\<exists>rc. UVAtlas env data maxCharts maxStretch gutter width height uvOptions epsilon
                    = Returns (None, rc) \<and> rc \<noteq> 0))"
proof (intro conjI)
  show "(\<exists>r rc. UVAtlas env data maxCharts maxStretch gutter width height uvOptions epsilon
               = Returns (Some r, rc))
      \<longleftrightarrow> (\<exists>hr1 m1 hr2 m2 hr3 m3.
             index_stage env data = Returns (hr1, m1) \<and> \<not> FAILED hr1
           \<and> vertex_stage env data m1 = Returns (hr2, m2) \<and> \<not> FAILED hr2
           \<and> adjacency_stage env epsilon m2 = Returns (hr3, m3) \<and> \<not> FAILED hr3
           \<and> \<not> FAILED (fst (atlas_stage env data maxCharts maxStretch gutter width height
                                 uvOptions m3)))
          \<and> alloc_result env \<and> alloc_us env \<noteq> None \<and> alloc_vs env \<noteq> None
          \<and> alloc_indices env \<noteq> None \<and> alloc_vertexRemap env \<noteq> None"
    by (auto simp: UVAtlas_def build_result_cases
          split: outcome.splits prod.splits if_splits)
next
  show "\<forall>r rc. UVAtlas env data maxCharts maxStretch gutter width height uvOptions epsilon
               = Returns (Some r, rc) \<longrightarrow>
         rc = 0
         \<and> (\<exists>hr1 m1 hr2 m2 hr3 m3 hr4 vb ib remap idx.
               index_stage env data = Returns (hr1, m1)
             \<and> vertex_stage env data m1 = Returns (hr2, m2)
             \<and> adjacency_stage env epsilon m2 = Returns (hr3, m3)
             \<and> atlas_stage env data maxCharts maxStretch gutter width height uvOptions m3
                 = (hr4, vb, ib, remap)
             \<and> numVertices r = of_nat (length vb)
             \<and> p_us r = Some (map (\<lambda>v. uv_x (vtx_uv v)) vb)
             \<and> p_vs r = Some (map (\<lambda>v. uv_y (vtx_uv v)) vb)
             \<and> numFaces r = of_nat (length ib div 4 div 3)
             \<and> p_indices r = Some idx \<and> length idx = length ib div 4
             \<and> (\<forall>i<length ib div 4.
                   unat (idx ! i) = unat (ib ! (4 * i)) + 256 * unat (ib ! (4 * i + 1))
                     + 65536 * unat (ib ! (4 * i + 2)) + 16777216 * unat (ib ! (4 * i + 3)))
             \<and> p_vertexRemap r = Some remap)"
  proof (intro allI impI)
    fix r rc
    assume run: "UVAtlas env data maxCharts maxStretch gutter width height uvOptions epsilon
                   = Returns (Some r, rc)"
    then obtain hr1 m1 hr2 m2 hr3 m3 hr4 vb ib remap where
      st: "index_stage env data = Returns (hr1, m1)"
          "vertex_stage env data m1 = Returns (hr2, m2)"
          "adjacency_stage env epsilon m2 = Returns (hr3, m3)"
          "atlas_stage env data maxCharts maxStretch gutter width height uvOptions m3
             = (hr4, vb, ib, remap)"
      and br: "build_result env vb ib remap = Returns r" and rc: "rc = 0"
      by (auto simp: UVAtlas_def split: outcome.splits prod.splits if_splits)
    from build_result_Returns[OF br] st rc
    show "rc = 0
         \<and> (\<exists>hr1 m1 hr2 m2 hr3 m3 hr4 vb ib remap idx.
               index_stage env data = Returns (hr1, m1)
             \<and> vertex_stage env data m1 = Returns (hr2, m2)
             \<and> adjacency_stage env epsilon m2 = Returns (hr3, m3)
             \<and> atlas_stage env data maxCharts maxStretch gutter width height uvOptions m3
                 = (hr4, vb, ib, remap)
             \<and> numVertices r = of_nat (length vb)
             \<and> p_us r = Some (map (\<lambda>v. uv_x (vtx_uv v)) vb)
             \<and> p_vs r = Some (map (\<lambda>v. uv_y (vtx_uv v)) vb)
             \<and> numFaces r = of_nat (length ib div 4 div 3)
             \<and> p_indices r = Some idx \<and> length idx = length ib div 4
             \<and> (\<forall>i<length ib div 4.
                   unat (idx ! i) = unat (ib ! (4 * i)) + 256 * unat (ib ! (4 * i + 1))
                     + 65536 * unat (ib ! (4 * i + 2)) + 16777216 * unat (ib ! (4 * i + 3)))
             \<and> p_vertexRemap r = Some remap)"
      by blast
  qed
next
  show "(\<exists>hr1 m1. index_stage env data = Returns (hr1, m1)
          \<and> (FAILED hr1
              \<or> (\<exists>hr2 m2. vertex_stage env data m1 = Returns (hr2, m2)
                   \<and> (FAILED hr2
                       \<or> (\<exists>hr3 m3. adjacency_stage env epsilon m2 = Returns (hr3, m3)
                            \<and> (FAILED hr3
                                \<or> FAILED (fst (atlas_stage env data maxCharts maxStretch gutter
                                                 width height uvOptions m3))))))))
        \<longrightarrow> (\<exists>rc. UVAtlas env data maxCharts maxStretch gutter width height uvOptions epsilon
                    = Returns (None, rc) \<and> rc \<noteq> 0)"
    by (auto simp: UVAtlas_def split: outcome.splits prod.splits if_splits)
qed

text \<open>
  The single triangle, once with every stage and allocation succeeding and once without
  memory for positions.
\<close>

theorem UVAtlas_result_iff_stages_and_allocations_witness:
  "(\<exists>r. UVAtlas triangle_env triangle_data 0 0 0 512 512 0 0 = Returns (Some r, 0)
        \<and> p_us r = Some [0, 1, 0] \<and> p_vs r = Some [0, 0, 1] \<and> p_indices r = Some [0, 1, 2]
        \<and> p_vertexRemap r = Some [0, 1, 2] \<and> numVertices r = 3 \<and> numFaces r = 1)
   \<and> (\<exists>rc. UVAtlas (triangle_env\<lparr>alloc_pos := None\<rparr>) triangle_data 0 0 0 512 512 0 0
              = Returns (None, rc) \<and> rc \<noteq> 0)"
proof -
  note claim = UVAtlas_result_iff_stages_and_allocations
  have s1: "index_stage triangle_env triangle_data = Returns (S_OK, triangle_mesh1)"
    by (rule triangle_index_stage) (simp_all add: triangle_env_def)
  have s2: "vertex_stage triangle_env triangle_data triangle_mesh1 = Returns (S_OK, triangle_mesh2)"
    by (rule triangle_vertex_stage) (simp add: triangle_env_def)
  have s3: "adjacency_stage triangle_env 0 triangle_mesh2 = Returns (S_OK, triangle_mesh3)"
    by (rule triangle_adjacency_stage) (simp_all add: triangle_env_def)
  have s4: "\<not> FAILED (fst (atlas_stage triangle_env triangle_data 0 0 0 512 512 0 triangle_mesh3))"
    by (rule triangle_atlas_stage) (simp add: triangle_env_def)
  have al: "alloc_result triangle_env \<and> alloc_us triangle_env \<noteq> None
      \<and> alloc_vs triangle_env \<noteq> None \<and> alloc_indices triangle_env \<noteq> None
      \<and> alloc_vertexRemap triangle_env \<noteq> None"
    by (simp add: triangle_env_def)
  have "(\<exists>hr1 m1 hr2 m2 hr3 m3.
             index_stage triangle_env triangle_data = Returns (hr1, m1) \<and> \<not> FAILED hr1
           \<and> vertex_stage triangle_env triangle_data m1 = Returns (hr2, m2) \<and> \<not> FAILED hr2
           \<and> adjacency_stage triangle_env 0 m2 = Returns (hr3, m3) \<and> \<not> FAILED hr3
           \<and> \<not> FAILED (fst (atlas_stage triangle_env triangle_data 0 0 0 512 512 0 m3)))"
    using s1 s2 s3 s4 FAILED_codes(1) by blast
  with al claim [of triangle_env triangle_data 0 0 0 512 512 0 0]
  obtain r rc where run: "UVAtlas triangle_env triangle_data 0 0 0 512 512 0 0 = Returns (Some r, rc)"
    by blast
  with claim [of triangle_env triangle_data 0 0 0 512 512 0 0] have rc: "rc = 0" by blast
  from run triangle_run have r: "r = triangle_atlas" by simp
  have ok: "\<exists>r. UVAtlas triangle_env triangle_data 0 0 0 512 512 0 0 = Returns (Some r, 0)
        \<and> p_us r = Some [0, 1, 0] \<and> p_vs r = Some [0, 0, 1] \<and> p_indices r = Some [0, 1, 2]
        \<and> p_vertexRemap r = Some [0, 1, 2] \<and> numVertices r = 3 \<and> numFaces r = 1"
    using run rc r by (simp add: triangle_atlas_def)
  have f1: "index_stage (triangle_env\<lparr>alloc_pos := None\<rparr>) triangle_data
              = Returns (S_OK, triangle_mesh1)"
    by (rule triangle_index_stage) (simp_all add: triangle_env_def)
  have "\<exists>hr1 m1. index_stage (triangle_env\<lparr>alloc_pos := None\<rparr>) triangle_data = Returns (hr1, m1)
          \<and> (FAILED hr1
              \<or> (\<exists>hr2 m2. vertex_stage (triangle_env\<lparr>alloc_pos := None\<rparr>) triangle_data m1
                            = Returns (hr2, m2)
                   \<and> (FAILED hr2
                       \<or> (\<exists>hr3 m3. adjacency_stage (triangle_env\<lparr>alloc_pos := None\<rparr>) 0 m2
                                     = Returns (hr3, m3)
                            \<and> (FAILED hr3
                                \<or> FAILED (fst (atlas_stage (triangle_env\<lparr>alloc_pos := None\<rparr>)
                                                 triangle_data 0 0 0 512 512 0 m3)))))))"
    using f1 no_memory_vertex_stage FAILED_codes(3) by blast
  with claim [of "triangle_env\<lparr>alloc_pos := None\<rparr>" triangle_data 0 0 0 512 512 0 0]
  have bad: "\<exists>rc. UVAtlas (triangle_env\<lparr>alloc_pos := None\<rparr>) triangle_data 0 0 0 512 512 0 0
              = Returns (None, rc) \<and> rc \<noteq> 0"
    by blast
  from ok bad show ?thesis by blast
qed

text \<open>
  The claim as stated fails when an allocation for the result fails. On the single
  triangle all four stages succeed; with no memory for \<open>us\<close> the plain \<open>new\<close> throws, and
  \<open>UVAtlas\<close> returns nothing, neither a result nor null.
\<close>

theorem UVAtlas_result_counterexample:
  "index_stage (triangle_env\<lparr>alloc_us := None\<rparr>) triangle_data = Returns (S_OK, triangle_mesh1)
   \<and> vertex_stage (triangle_env\<lparr>alloc_us := None\<rparr>) triangle_data triangle_mesh1
       = Returns (S_OK, triangle_mesh2)
   \<and> adjacency_stage (triangle_env\<lparr>alloc_us := None\<rparr>) 0 triangle_mesh2
       = Returns (S_OK, triangle_mesh3)
   \<and> fst (atlas_stage (triangle_env\<lparr>alloc_us := None\<rparr>) triangle_data 0 0 0 512 512 0
            triangle_mesh3) = S_OK
   \<and> \<not> FAILED S_OK
   \<and> UVAtlas (triangle_env\<lparr>alloc_us := None\<rparr>) triangle_data 0 0 0 512 512 0 0 = Fault"
proof -
  let ?E = "triangle_env\<lparr>alloc_us := None\<rparr>"
  have s1: "index_stage ?E triangle_data = Returns (S_OK, triangle_mesh1)"
    by (rule triangle_index_stage) (simp_all add: triangle_env_def)
  have s2: "vertex_stage ?E triangle_data triangle_mesh1 = Returns (S_OK, triangle_mesh2)"
    by (rule triangle_vertex_stage) (simp add: triangle_env_def)
  have s3: "adjacency_stage ?E 0 triangle_mesh2 = Returns (S_OK, triangle_mesh3)"
    by (rule triangle_adjacency_stage) (simp_all add: triangle_env_def)
  have s4: "dxUVAtlasCreate triangle_env = flat_atlas"
    by (simp add: triangle_env_def)
  have run: "UVAtlas ?E triangle_data 0 0 0 512 512 0 0 = Fault"
    using s1 s2 s3
    by (simp add: UVAtlas_def s4 FAILED_codes flat_atlas_def build_result_cases)
  show ?thesis
    using s1 s2 s3 run by (simp add: s4 flat_atlas_def FAILED_codes)
qed

text \<open>
  C1 (amended). The failure code written to \<open>returnCode\<close> identifies the stage that
  failed, not the kind of failure: it is 2 when index ingestion fails, 3 when vertex
  ingestion fails, 4 when adjacency generation fails and 5 when atlas creation fails,
  whatever result code the failing stage reported; a call that returns leaves 0 with a
  result or one of 2, 3, 4, 5 with null.
\<close>

theorem returnCode_names_failing_stage:
  "(\<forall>hr1 m1. index_stage env data = Returns (hr1, m1) \<and> FAILED hr1 \<longrightarrow>
       UVAtlas env data maxCharts maxStretch gutter width height uvOptions epsilon
         = Returns (None, 2))
   \<and> (\<forall>hr1 m1 hr2 m2.
         index_stage env data = Returns (hr1, m1) \<and> \<not> FAILED hr1
       \<and> vertex_stage env data m1 = Returns (hr2, m2) \<and> FAILED hr2 \<longrightarrow>
       UVAtlas env data maxCharts maxStretch gutter width height uvOptions epsilon
         = Returns (None, 3))
   \<and> (\<forall>hr1 m1 hr2 m2 hr3 m3.
         index_stage env data = Returns (hr1, m1) \<and> \<not> FAILED hr1
       \<and> vertex_stage env data m1 = Returns (hr2, m2) \<and> \<not> FAILED hr2
       \<and> adjacency_stage env epsilon m2 = Returns (hr3, m3) \<and> FAILED hr3 \<longrightarrow>
       UVAtlas env data maxCharts maxStretch gutter width height uvOptions epsilon
         = Returns (None, 4))
   \<and> (\<forall>hr1 m1 hr2 m2 hr3 m3.
         index_stage env data = Returns (hr1, m1) \<and> \<not> FAILED hr1
       \<and> vertex_stage env data m1 = Returns (hr2, m2) \<and> \<not> FAILED hr2
       \<and> adjacency_stage env epsilon m2 = Returns (hr3, m3) \<and> \<not> FAILED hr3
       \<and> FAILED (fst (atlas_stage env data maxCharts maxStretch gutter width height
                         uvOptions m3)) \<longrightarrow>
       UVAtlas env data maxCharts maxStretch gutter width height uvOptions epsilon
         = Returns (None, 5))
   \<and> (\<forall>r rc. UVAtlas env data maxCharts maxStretch gutter width height uvOptions epsilon
                 = Returns (r, rc) \<longrightarrow>
         (rc = 0 \<and> r \<noteq> None) \<or> (rc \<in> {2, 3, 4, 5} \<and> r = None))"
  by (auto simp: UVAtlas_def split: outcome.splits prod.splits if_splits)

text \<open>One failure at each stage of the single-triangle pipeline.\<close>

theorem returnCode_names_failing_stage_witness:
  "UVAtlas triangle_env (triangle_data\<lparr>numFaces := 0\<rparr>) 0 0 0 512 512 0 0 = Returns (None, 2)
   \<and> UVAtlas (triangle_env\<lparr>alloc_ib := None\<rparr>) triangle_data 0 0 0 512 512 0 0
       = Returns (None, 2)
   \<and> UVAtlas (triangle_env\<lparr>alloc_pos := None\<rparr>) triangle_data 0 0 0 512 512 0 0
       = Returns (None, 3)
   \<and> UVAtlas (triangle_env\<lparr>alloc_adj := None\<rparr>) triangle_data 0 0 0 512 512 0 0
       = Returns (None, 4)
   \<and> UVAtlas (triangle_env\<lparr>dxUVAtlasCreate := infeasible_atlas\<rparr>) triangle_data 0 0 0 512 512 0 0
       = Returns (None, 5)"
proof -
  note claim = returnCode_names_failing_stage
  have c2: "UVAtlas triangle_env (triangle_data\<lparr>numFaces := 0\<rparr>) 0 0 0 512 512 0 0
              = Returns (None, 2)"
    using claim [of triangle_env "triangle_data\<lparr>numFaces := 0\<rparr>" 0 0 0 512 512 0 0]
      no_faces_index_stage FAILED_codes(2) by blast
  have c2': "UVAtlas (triangle_env\<lparr>alloc_ib := None\<rparr>) triangle_data 0 0 0 512 512 0 0
              = Returns (None, 2)"
    using claim [of "triangle_env\<lparr>alloc_ib := None\<rparr>" triangle_data 0 0 0 512 512 0 0]
      no_memory_index_stage FAILED_codes(3) by blast
  have i3: "index_stage (triangle_env\<lparr>alloc_pos := None\<rparr>) triangle_data
              = Returns (S_OK, triangle_mesh1)"
    by (rule triangle_index_stage) (simp_all add: triangle_env_def)
  have c3: "UVAtlas (triangle_env\<lparr>alloc_pos := None\<rparr>) triangle_data 0 0 0 512 512 0 0
              = Returns (None, 3)"
    using claim [of "triangle_env\<lparr>alloc_pos := None\<rparr>" triangle_data 0 0 0 512 512 0 0]
      i3 no_memory_vertex_stage FAILED_codes(1,3) by blast
  have i4: "index_stage (triangle_env\<lparr>alloc_adj := None\<rparr>) triangle_data
              = Returns (S_OK, triangle_mesh1)"
    by (rule triangle_index_stage) (simp_all add: triangle_env_def)
  have v4: "vertex_stage (triangle_env\<lparr>alloc_adj := None\<rparr>) triangle_data triangle_mesh1
              = Returns (S_OK, triangle_mesh2)"
    by (rule triangle_vertex_stage) (simp add: triangle_env_def)
  have c4: "UVAtlas (triangle_env\<lparr>alloc_adj := None\<rparr>) triangle_data 0 0 0 512 512 0 0
              = Returns (None, 4)"
    using claim [of "triangle_env\<lparr>alloc_adj := None\<rparr>" triangle_data 0 0 0 512 512 0 0]
      i4 v4 no_memory_adjacency_stage FAILED_codes(1,3) by blast
  have i5: "index_stage (triangle_env\<lparr>dxUVAtlasCreate := infeasible_atlas\<rparr>) triangle_data
              = Returns (S_OK, triangle_mesh1)"
    by (rule triangle_index_stage) (simp_all add: triangle_env_def)
  have v5: "vertex_stage (triangle_env\<lparr>dxUVAtlasCreate := infeasible_atlas\<rparr>) triangle_data
              triangle_mesh1 = Returns (S_OK, triangle_mesh2)"
    by (rule triangle_vertex_stage) (simp add: triangle_env_def)
  have a5: "adjacency_stage (triangle_env\<lparr>dxUVAtlasCreate := infeasible_atlas\<rparr>) 0 triangle_mesh2
              = Returns (S_OK, triangle_mesh3)"
    by (rule triangle_adjacency_stage) (simp_all add: triangle_env_def)
  have f5: "FAILED (fst (atlas_stage (triangle_env\<lparr>dxUVAtlasCreate := infeasible_atlas\<rparr>)
              triangle_data 0 0 0 512 512 0 triangle_mesh3))"
    by (simp add: infeasible_atlas_def FAILED_codes)
  have c5: "UVAtlas (triangle_env\<lparr>dxUVAtlasCreate := infeasible_atlas\<rparr>) triangle_data
              0 0 0 512 512 0 0 = Returns (None, 5)"
    using claim [of "triangle_env\<lparr>dxUVAtlasCreate := infeasible_atlas\<rparr>" triangle_data
        0 0 0 512 512 0 0]
      i5 v5 a5 f5 FAILED_codes(1) by blast
  from c2 c2' c3 c4 c5 show ?thesis by blast
qed

text \<open>
  The claim as stated fails: a zero face count (bad input) and a failed index allocation
  (allocation failure) are both reported as 2, and an allocation failure is reported as
  2 or as 3 depending on the stage it occurs in.
\<close>

theorem returnCode_counterexample:
  "index_stage triangle_env (triangle_data\<lparr>numFaces := 0\<rparr>) = Returns (E_INVALIDARG, Mesh_new)
   \<and> UVAtlas triangle_env (triangle_data\<lparr>numFaces := 0\<rparr>) 0 0 0 512 512 0 0 = Returns (None, 2)
   \<and> index_stage (triangle_env\<lparr>alloc_ib := None\<rparr>) triangle_data
       = Returns (E_OUTOFMEMORY, Mesh_new)
   \<and> UVAtlas (triangle_env\<lparr>alloc_ib := None\<rparr>) triangle_data 0 0 0 512 512 0 0
       = Returns (None, 2)
   \<and> E_INVALIDARG \<noteq> E_OUTOFMEMORY
   \<and> vertex_stage (triangle_env\<lparr>alloc_pos := None\<rparr>) triangle_data triangle_mesh1
       = Returns (E_OUTOFMEMORY, triangle_mesh1)
   \<and> UVAtlas (triangle_env\<lparr>alloc_pos := None\<rparr>) triangle_data 0 0 0 512 512 0 0
       = Returns (None, 3)"
proof -
  have i3: "index_stage (triangle_env\<lparr>alloc_pos := None\<rparr>) triangle_data
              = Returns (S_OK, triangle_mesh1)"
    by (rule triangle_index_stage) (simp_all add: triangle_env_def)
  show ?thesis
    using no_faces_index_stage no_memory_index_stage no_memory_vertex_stage i3
    by (simp add: UVAtlas_def FAILED_codes codes_distinct)
qed

end
